theory Spec2Isabelle
  imports Complex_Main "HOL-Library.Word"
begin

unbundle bit_operations_syntax

section \<open>Camera fuzzer (src/graphics/fuzzer.py): data model\<close>

text \<open>
  Python \<open>bytes\<close> values are lists of 8-bit words.  Every exception the modelled code
  can raise is a value of \<open>error\<close>; a function that may raise returns \<open>error + 'a\<close>
  with \<open>Inl\<close> for the exception.
\<close>

type_synonym byte = "8 word"
type_synonym pybytes = "byte list"

datatype error = ValueError | IndexError | KeyError | StructError | OverflowError | OSError

text \<open>
  An input is the Python dict with the optional keys \<open>position\<close>, \<open>rotation\<close>, \<open>zoom\<close>
  and \<open>bytes\<close>; an absent key is \<open>None\<close>.  The record is polymorphic in
  \<^item> \<open>'n\<close>, the numbers stored in the structured fields (Python floats and ints), and
  \<^item> \<open>'p\<close>, what the \<open>position\<close> and \<open>rotation\<close> keys hold: the list itself
    (\<open>'n list\<close>) where only its contents matter, or the address of the list object in a
    store where sharing between dicts matters (see the mutator below).
\<close>

record ('p, 'n) input =
  position :: "'p option"
  rotation :: "'p option"
  zoom :: "'n option"
  bytes :: "pybytes option"

definition raw_input :: "pybytes \<Rightarrow> ('p, 'n) input" where
  "raw_input data = \<lparr>position = None, rotation = None, zoom = None, bytes = Some data\<rparr>"

section \<open>Binary encoding: \<open>write_input_file\<close> and \<open>read_input_file\<close>\<close>

text \<open>
  \<open>struct.pack('f', v)\<close> and \<open>struct.unpack('f', b)\<close> belong to the Python library, not
  to the fuzzer; they are parameters \<open>pk\<close> and \<open>up\<close> of the model.  \<open>pk v\<close> is the
  four bytes of \<open>v\<close> as a 32-bit float or the exception raised (\<open>OverflowError\<close> for a
  float too large, \<open>struct.error\<close> for a non-number); \<open>up b\<close> is the float read from four
  bytes, which never fails.

  \<open>struct.pack('3f', *pos)\<close> raises \<open>struct.error\<close> unless it gets exactly three
  items, and packs them in order; \<open>struct.unpack('3f', b)\<close> raises \<open>struct.error\<close>
  unless \<open>b\<close> has exactly 12 bytes.
\<close>

fun pack_all :: "('n \<Rightarrow> error + pybytes) \<Rightarrow> 'n list \<Rightarrow> error + pybytes" where
  "pack_all pk [] = Inr []"
| "pack_all pk (v # vs) =
     (case pk v of
        Inl e \<Rightarrow> Inl e
      | Inr b \<Rightarrow> (case pack_all pk vs of Inl e \<Rightarrow> Inl e | Inr bs \<Rightarrow> Inr (b @ bs)))"

definition struct_pack :: "('n \<Rightarrow> error + pybytes) \<Rightarrow> nat \<Rightarrow> 'n list \<Rightarrow> error + pybytes" where
  "struct_pack pk n vs = (if length vs \<noteq> n then Inl StructError else pack_all pk vs)"

definition struct_unpack :: "(pybytes \<Rightarrow> 'n) \<Rightarrow> nat \<Rightarrow> pybytes \<Rightarrow> error + 'n list" where
  "struct_unpack up n b =
     (if length b \<noteq> 4 * n then Inl StructError
      else Inr (map (\<lambda>i. up (take 4 (drop (4 * i) b))) [0..<n]))"

text \<open>
  Python slices \<open>xs[a:b]\<close>: a negative bound counts from the end, both bounds are
  clamped to the list, and nothing raises.  \<open>xs[a:b] = v\<close> replaces that range (the
  empty range at \<open>a\<close> when \<open>b\<close> is left of \<open>a\<close>) by \<open>v\<close>.
\<close>

definition clamp_index :: "nat \<Rightarrow> int \<Rightarrow> nat" where
  "clamp_index n i = (if i < 0 then nat (max 0 (int n + i)) else min n (nat i))"

definition py_slice :: "int \<Rightarrow> int \<Rightarrow> 'a list \<Rightarrow> 'a list" where
  "py_slice a b xs =
     (let lo = clamp_index (length xs) a; hi = clamp_index (length xs) b
      in take (hi - lo) (drop lo xs))"

definition py_slice_assign :: "int \<Rightarrow> int \<Rightarrow> 'a list \<Rightarrow> 'a list \<Rightarrow> 'a list" where
  "py_slice_assign a b v xs =
     (let lo = clamp_index (length xs) a; hi = max lo (clamp_index (length xs) b)
      in take lo xs @ v @ drop hi xs)"

text \<open>
  Python indexing \<open>xs[i]\<close> on a sequence of length \<open>n\<close>: the position read or written,
  or \<open>IndexError\<close>.
\<close>

definition py_index :: "nat \<Rightarrow> int \<Rightarrow> error + nat" where
  "py_index n i =
     (if 0 \<le> i \<and> i < int n then Inr (nat i)
      else if - int n \<le> i \<and> i < 0 then Inr (nat (int n + i))
      else Inl IndexError)"

text \<open>
  \<open>write_input_file\<close>: the pair of the bytes that are in the file when the call ends and
  the exception it raised, if any.  The file is opened for writing (so it starts empty)
  and each present field is written in turn; a field that fails to pack raises after the
  earlier fields were written.
\<close>

definition write_zoom ::
  "('n \<Rightarrow> error + pybytes) \<Rightarrow> ('n list, 'n) input \<Rightarrow> pybytes \<Rightarrow> pybytes \<times> error option" where
  "write_zoom pk input_data out =
     (case zoom input_data of
        None \<Rightarrow> (out, None)
      | Some z \<Rightarrow>
          (case struct_pack pk 1 [z] of
             Inl e \<Rightarrow> (out, Some e)
           | Inr b \<Rightarrow> (out @ b, None)))"

definition write_rotation ::
  "('n \<Rightarrow> error + pybytes) \<Rightarrow> ('n list, 'n) input \<Rightarrow> pybytes \<Rightarrow> pybytes \<times> error option" where
  "write_rotation pk input_data out =
     (case rotation input_data of
        None \<Rightarrow> write_zoom pk input_data out
      | Some rot \<Rightarrow>
          (case struct_pack pk 4 rot of
             Inl e \<Rightarrow> (out, Some e)
           | Inr b \<Rightarrow> write_zoom pk input_data (out @ b)))"

definition write_position ::
  "('n \<Rightarrow> error + pybytes) \<Rightarrow> ('n list, 'n) input \<Rightarrow> pybytes \<Rightarrow> pybytes \<times> error option" where
  "write_position pk input_data out =
     (case position input_data of
        None \<Rightarrow> write_rotation pk input_data out
      | Some pos \<Rightarrow>
          (case struct_pack pk 3 pos of
             Inl e \<Rightarrow> (out, Some e)
           | Inr b \<Rightarrow> write_rotation pk input_data (out @ b)))"

definition write_input_file ::
  "('n \<Rightarrow> error + pybytes) \<Rightarrow> ('n list, 'n) input \<Rightarrow> pybytes \<times> error option" where
  "write_input_file pk input_data =
     (case bytes input_data of
        Some b \<Rightarrow> (b, None)
      | None \<Rightarrow> write_position pk input_data [])"

text \<open>
  \<open>read_input_file\<close> on the bytes read from the file.  \<open>parse_structured\<close> is the body
  of the \<open>try\<close>; the bare \<open>except: pass\<close> catches whatever it raises and falls through
  to the raw-bytes return.
\<close>

definition parse_structured :: "(pybytes \<Rightarrow> 'n) \<Rightarrow> pybytes \<Rightarrow> error + ('n list, 'n) input" where
  "parse_structured up data =
     (case struct_unpack up 3 (py_slice 0 12 data) of
        Inl e \<Rightarrow> Inl e
      | Inr pos \<Rightarrow>
     (case struct_unpack up 4 (py_slice 12 28 data) of
        Inl e \<Rightarrow> Inl e
      | Inr rot \<Rightarrow>
     (case struct_unpack up 1 (py_slice 28 32 data) of
        Inl e \<Rightarrow> Inl e
      | Inr zs \<Rightarrow>
     (case zs of
        [] \<Rightarrow> Inl IndexError
      | z # _ \<Rightarrow>
          Inr \<lparr>position = Some pos, rotation = Some rot, zoom = Some z, bytes = Some data\<rparr>))))"

definition read_input_file :: "(pybytes \<Rightarrow> 'n) \<Rightarrow> pybytes \<Rightarrow> error + ('n list, 'n) input" where
  "read_input_file up data =
     (if length data \<ge> 32 then
        (case parse_structured up data of
           Inr v \<Rightarrow> Inr v
         | Inl e \<Rightarrow> Inr (raw_input data))
      else Inr (raw_input data))"



text \<open>
  A concrete codec for closed examples: the Python floats that are exactly representable
  in binary32, each identified with its IEEE-754 bit pattern (\<open>0x41200000\<close> is 10.0,
  \<open>0x3F800000\<close> is 1.0, \<open>0x7F800000\<close> is +inf).  Packing such a float gives its pattern in
  little-endian byte order and never raises.
\<close>

definition f32_pack :: "32 word \<Rightarrow> error + pybytes" where
  "f32_pack w = Inr [ucast w, ucast (drop_bit 8 w), ucast (drop_bit 16 w), ucast (drop_bit 24 w)]"

definition f32_unpack :: "pybytes \<Rightarrow> 32 word" where
  "f32_unpack b =
     (case b of
        [b0, b1, b2, b3] \<Rightarrow>
          ucast b0 OR push_bit 8 (ucast b1) OR push_bit 16 (ucast b2) OR push_bit 24 (ucast b3)
      | _ \<Rightarrow> 0)"


section \<open>Randomness\<close>

text \<open>
  The random sources (\<open>random.randint\<close>, \<open>random.random\<close>, \<open>random.choice\<close>,
  \<open>os.urandom\<close>) read an arbitrary infinite tape of natural numbers, one cell per call; a
  property proved for every tape holds for every outcome of the draws.
  \<open>random.randint(a, b)\<close> raises \<open>ValueError\<close> on an empty range and
  \<open>random.choice\<close> raises \<open>IndexError\<close> on an empty sequence.  \<open>random.random()\<close> is a
  multiple of \<open>2\<^sup>-\<^sup>5\<^sup>3\<close> in \<open>[0, 1)\<close>.
\<close>

type_synonym rng = "nat \<Rightarrow> nat"

definition next_raw :: "rng \<Rightarrow> nat \<times> rng" where
  "next_raw g = (g 0, \<lambda>i. g (Suc i))"

definition randint :: "int \<Rightarrow> int \<Rightarrow> rng \<Rightarrow> error + (int \<times> rng)" where
  "randint a b g =
     (if b < a then Inl ValueError
      else (case next_raw g of (r, g') \<Rightarrow> Inr (a + int r mod (b - a + 1), g')))"

definition random_float :: "rng \<Rightarrow> real \<times> rng" where
  "random_float g = (case next_raw g of (r, g') \<Rightarrow> (real (r mod 2 ^ 53) / 2 ^ 53, g'))"

definition choice :: "'a list \<Rightarrow> rng \<Rightarrow> error + ('a \<times> rng)" where
  "choice xs g =
     (if xs = [] then Inl IndexError
      else (case next_raw g of (r, g') \<Rightarrow> Inr (xs ! (r mod length xs), g')))"

fun urandom :: "nat \<Rightarrow> rng \<Rightarrow> pybytes \<times> rng" where
  "urandom 0 g = ([], g)"
| "urandom (Suc n) g =
     (case next_raw g of (r, g1) \<Rightarrow>
        (case urandom n g1 of (bs, g2) \<Rightarrow> (of_nat r # bs, g2)))"

text \<open>The tape that starts with the given cells and is 0 afterwards.\<close>

fun tape_of :: "nat list \<Rightarrow> rng" where
  "tape_of [] i = 0"
| "tape_of (x # xs) 0 = x"
| "tape_of (x # xs) (Suc i) = tape_of xs i"

section \<open>Mutation strategies on the byte payload\<close>

text \<open>
  Each strategy gets the dict it may change, and returns it.  The strategies of this
  section only read and replace the value at the key \<open>bytes\<close>, so they are the same
  function whatever the structured fields hold.
\<close>

text \<open>
  The loop of \<open>bit_flip\<close>.  \<open>bytes_data[i] ^= (1 << k)\<close> raises \<open>ValueError\<close> when
  the new value is not a byte, which is when \<open>k\<close> is outside 0..7.
\<close>

fun flip_bits :: "nat \<Rightarrow> pybytes \<Rightarrow> rng \<Rightarrow> error + (pybytes \<times> rng)" where
  "flip_bits 0 bytes_data g = Inr (bytes_data, g)"
| "flip_bits (Suc k) bytes_data g =
     (case randint 0 (int (length bytes_data) - 1) g of
        Inl e \<Rightarrow> Inl e
      | Inr (byte_idx, g1) \<Rightarrow>
     (case randint 0 7 g1 of
        Inl e \<Rightarrow> Inl e
      | Inr (bit_idx, g2) \<Rightarrow>
     (case py_index (length bytes_data) byte_idx of
        Inl e \<Rightarrow> Inl e
      | Inr j \<Rightarrow>
          if bit_idx < 0 \<or> 7 < bit_idx then Inl ValueError
          else flip_bits k
                 (bytes_data[j := bytes_data ! j XOR push_bit (nat bit_idx) 1]) g2)))"

definition bit_flip :: "('p, 'n) input \<Rightarrow> rng \<Rightarrow> error + (('p, 'n) input \<times> rng)" where
  "bit_flip data g =
     (case bytes data of
        None \<Rightarrow> Inr (data, g)
      | Some b \<Rightarrow>
          if b = [] then Inr (data, g)
          else
            (case randint 1 8 g of
               Inl e \<Rightarrow> Inl e
             | Inr (num_flips, g1) \<Rightarrow>
            (case flip_bits (nat num_flips) b g1 of
               Inl e \<Rightarrow> Inl e
             | Inr (bytes_data, g2) \<Rightarrow> Inr (data\<lparr>bytes := Some bytes_data\<rparr>, g2))))"

fun flip_bytes :: "nat \<Rightarrow> pybytes \<Rightarrow> rng \<Rightarrow> error + (pybytes \<times> rng)" where
  "flip_bytes 0 bytes_data g = Inr (bytes_data, g)"
| "flip_bytes (Suc k) bytes_data g =
     (case randint 0 (int (length bytes_data) - 1) g of
        Inl e \<Rightarrow> Inl e
      | Inr (idx, g1) \<Rightarrow>
     (case py_index (length bytes_data) idx of
        Inl e \<Rightarrow> Inl e
      | Inr j \<Rightarrow> flip_bytes k (bytes_data[j := bytes_data ! j XOR 0xFF]) g1))"

definition byte_flip :: "('p, 'n) input \<Rightarrow> rng \<Rightarrow> error + (('p, 'n) input \<times> rng)" where
  "byte_flip data g =
     (case bytes data of
        None \<Rightarrow> Inr (data, g)
      | Some b \<Rightarrow>
          if b = [] then Inr (data, g)
          else
            (case randint 1 4 g of
               Inl e \<Rightarrow> Inl e
             | Inr (num_flips, g1) \<Rightarrow>
            (case flip_bytes (nat num_flips) b g1 of
               Inl e \<Rightarrow> Inl e
             | Inr (bytes_data, g2) \<Rightarrow> Inr (data\<lparr>bytes := Some bytes_data\<rparr>, g2))))"

text \<open>
  \<open>block_shuffle\<close>.  \<open>swap_blocks\<close> is the body of \<open>if idx1 != idx2\<close>: both blocks are
  read first, then the block read at \<open>idx2\<close> is stored at \<open>idx1\<close> and, in the array so
  changed, the block read at \<open>idx1\<close> is stored at \<open>idx2\<close>.
\<close>

definition swap_blocks :: "int \<Rightarrow> int \<Rightarrow> int \<Rightarrow> pybytes \<Rightarrow> pybytes" where
  "swap_blocks idx1 idx2 block_size bytes_data =
     (let block1 = py_slice idx1 (idx1 + block_size) bytes_data;
          block2 = py_slice idx2 (idx2 + block_size) bytes_data;
          bytes_data1 = py_slice_assign idx1 (idx1 + block_size) block2 bytes_data
      in py_slice_assign idx2 (idx2 + block_size) block1 bytes_data1)"

definition block_shuffle :: "('p, 'n) input \<Rightarrow> rng \<Rightarrow> error + (('p, 'n) input \<times> rng)" where
  "block_shuffle data g =
     (case bytes data of
        None \<Rightarrow> Inr (data, g)
      | Some b \<Rightarrow>
          if length b < 8 then Inr (data, g)
          else
            (case choice [4, 8, 16, 32] g of
               Inl e \<Rightarrow> Inl e
             | Inr (block_size, g1) \<Rightarrow>
                 if block_size > int (length b) div 2 then Inr (data, g1)
                 else
                   (case randint 0 (int (length b) - block_size) g1 of
                      Inl e \<Rightarrow> Inl e
                    | Inr (idx1, g2) \<Rightarrow>
                   (case randint 0 (int (length b) - block_size) g2 of
                      Inl e \<Rightarrow> Inl e
                    | Inr (idx2, g3) \<Rightarrow>
                        Inr (data\<lparr>bytes :=
                               Some (if idx1 \<noteq> idx2 then swap_blocks idx1 idx2 block_size b
                                     else b)\<rparr>, g3)))))"

definition truncate_extend :: "('p, 'n) input \<Rightarrow> rng \<Rightarrow> error + (('p, 'n) input \<times> rng)" where
  "truncate_extend data g =
     (case bytes data of
        None \<Rightarrow> Inr (data, g)
      | Some b \<Rightarrow>
          (case random_float g of (r, g1) \<Rightarrow>
             if r < 0.5 then
               (if length b > 4 then
                  (case randint 1 (int (length b) - 1) g1 of
                     Inl e \<Rightarrow> Inl e
                   | Inr (new_len, g2) \<Rightarrow>
                       Inr (data\<lparr>bytes := Some (py_slice 0 new_len b)\<rparr>, g2))
                else Inr (data\<lparr>bytes := Some b\<rparr>, g1))
             else
               (case randint 1 100 g1 of
                  Inl e \<Rightarrow> Inl e
                | Inr (extend_len, g2) \<Rightarrow>
                    (case random_float g2 of (r2, g3) \<Rightarrow>
                       if r2 < 0.5 then
                         Inr (data\<lparr>bytes := Some (b @ replicate (nat extend_len) 0)\<rparr>, g3)
                       else
                         (case urandom (nat extend_len) g3 of (rb, g4) \<Rightarrow>
                            Inr (data\<lparr>bytes := Some (b @ rb)\<rparr>, g4))))))"

definition splice_inputs :: "('p, 'n) input \<Rightarrow> rng \<Rightarrow> error + (('p, 'n) input \<times> rng)" where
  "splice_inputs data g =
     (case bytes data of
        None \<Rightarrow> Inr (data, g)
      | Some b \<Rightarrow>
          if length b > 8 then
            (case randint 0 (int (length b) - 4) g of
               Inl e \<Rightarrow> Inl e
             | Inr (start, g1) \<Rightarrow>
            (case randint 4 (min 32 (int (length b) - start)) g1 of
               Inl e \<Rightarrow> Inl e
             | Inr (len, g2) \<Rightarrow>
            (case randint 0 (int (length b)) g2 of
               Inl e \<Rightarrow> Inl e
             | Inr (insert_pos, g3) \<Rightarrow>
                 Inr (data\<lparr>bytes :=
                        Some (py_slice_assign insert_pos insert_pos
                                (py_slice start (start + len) b) b)\<rparr>, g3))))
          else Inr (data, g))"

definition ascii :: "string \<Rightarrow> pybytes" where
  "ascii s = map (\<lambda>c. of_nat (of_char c)) s"

definition tokens :: "pybytes list" where
  "tokens =
     [ascii ''CAMERA'', ascii ''POSITION'', ascii ''ROTATION'', ascii ''ZOOM'',
      ascii ''MATRIX'', ascii ''QUATERNION'',
      [0x00, 0x00, 0x00, 0x00],
      [0xFF, 0xFF, 0xFF, 0xFF],
      [0x00, 0x00, 0x80, 0x3F],
      [0x00, 0x00, 0x80, 0xBF]]"

definition dictionary_mutation ::
  "('p, 'n) input \<Rightarrow> rng \<Rightarrow> error + (('p, 'n) input \<times> rng)" where
  "dictionary_mutation data g =
     (case bytes data of
        None \<Rightarrow> Inr (data, g)
      | Some b \<Rightarrow>
          (case choice tokens g of
             Inl e \<Rightarrow> Inl e
           | Inr (token, g1) \<Rightarrow>
               if length b \<ge> length token then
                 (case randint 0 (int (length b) - int (length token)) g1 of
                    Inl e \<Rightarrow> Inl e
                  | Inr (pos, g2) \<Rightarrow>
                      Inr (data\<lparr>bytes :=
                             Some (py_slice_assign pos (pos + int (length token)) token b)\<rparr>,
                           g2))
               else Inr (data\<lparr>bytes := Some b\<rparr>, g1)))"

section \<open>Mutation strategies on the structured fields, and \<open>mutate_input\<close>\<close>

text \<open>
  \<open>position\<close> and \<open>rotation\<close> hold Python lists, which are mutable objects: two dicts
  can hold the same list.  A store maps the address of each list object to its current
  contents, and a dict holds addresses.  The dict a strategy works on is passed and
  returned as a value: \<open>mutate_input\<close> hands every strategy a dict object that nothing
  else refers to.  \<open>deref\<close> reads a dict with the lists it refers to.
\<close>

type_synonym addr = nat
type_synonym 'n store = "addr \<Rightarrow> 'n list"

definition deref :: "'n store \<Rightarrow> (addr, 'n) input \<Rightarrow> ('n list, 'n) input" where
  "deref st d =
     \<lparr>position = map_option st (position d), rotation = map_option st (rotation d),
      zoom = zoom d, bytes = bytes d\<rparr>"

text \<open>
  \<open>dict.copy()\<close> is a shallow copy: a new dict whose keys hold the same objects, so the
  same list addresses.
\<close>

definition dict_copy :: "('p, 'n) input \<Rightarrow> ('p, 'n) input" where
  "dict_copy d = \<lparr>position = position d, rotation = rotation d, zoom = zoom d, bytes = bytes d\<rparr>"

text \<open>\<open>xs[idx] = v\<close> on the list object at address \<open>a\<close>.\<close>

definition store_item :: "addr \<Rightarrow> int \<Rightarrow> ('n \<Rightarrow> 'n) \<Rightarrow> 'n store \<Rightarrow> error + 'n store" where
  "store_item a idx f st =
     (case py_index (length (st a)) idx of
        Inl e \<Rightarrow> Inl e
      | Inr j \<Rightarrow> Inr (st(a := (st a)[j := f (st a ! j)])))"

text \<open>
  The literals of \<open>arithmetic_mutation\<close>: Python ints and float literals.  Python's \<open>+\<close>
  between a stored number and a literal is the parameter \<open>add\<close>.
\<close>

datatype delta = IntDelta int | FloatDelta rat

definition position_deltas :: "delta list" where
  "position_deltas =
     [IntDelta (-100), IntDelta (-10), IntDelta (-1), IntDelta 1, IntDelta 10, IntDelta 100]"

definition zoom_deltas :: "delta list" where
  "zoom_deltas =
     [IntDelta (-5), IntDelta (-1), FloatDelta (- (1 / 10)), FloatDelta (1 / 10),
      IntDelta 1, IntDelta 5]"

type_synonym 'n strategy =
  "(addr, 'n) input \<Rightarrow> 'n store \<Rightarrow> rng \<Rightarrow> error + ((addr, 'n) input \<times> 'n store \<times> rng)"

definition arithmetic_zoom :: "('n \<Rightarrow> delta \<Rightarrow> 'n) \<Rightarrow> 'n strategy" where
  "arithmetic_zoom add data st g =
     (case zoom data of
        None \<Rightarrow> Inr (data, st, g)
      | Some z \<Rightarrow>
          (case choice zoom_deltas g of
             Inl e \<Rightarrow> Inl e
           | Inr (delta, g1) \<Rightarrow> Inr (data\<lparr>zoom := Some (add z delta)\<rparr>, st, g1)))"

definition arithmetic_mutation :: "('n \<Rightarrow> delta \<Rightarrow> 'n) \<Rightarrow> 'n strategy" where
  "arithmetic_mutation add data st g =
     (case position data of
        None \<Rightarrow> arithmetic_zoom add data st g
      | Some a \<Rightarrow>
          (case randint 0 2 g of
             Inl e \<Rightarrow> Inl e
           | Inr (idx, g1) \<Rightarrow>
          (case choice position_deltas g1 of
             Inl e \<Rightarrow> Inl e
           | Inr (delta, g2) \<Rightarrow>
          (case store_item a idx (\<lambda>v. add v delta) st of
             Inl e \<Rightarrow> Inl e
           | Inr st1 \<Rightarrow> arithmetic_zoom add data st1 g2))))"

text \<open>
  \<open>interesting_values\<close>; \<open>ifl\<close> is \<open>self.interesting_floats\<close>, the list
  \<open>[0.0, -0.0, 1.0, -1.0, inf, -inf, nan]\<close>.  \<open>random.random()\<close> is only called for a
  key that is present.
\<close>

definition interesting_zoom :: "'n list \<Rightarrow> 'n strategy" where
  "interesting_zoom ifl data st g =
     (case zoom data of
        None \<Rightarrow> Inr (data, st, g)
      | Some z \<Rightarrow>
          (case random_float g of (r, g1) \<Rightarrow>
             if r < 0.3 then
               (case choice ifl g1 of
                  Inl e \<Rightarrow> Inl e
                | Inr (v, g2) \<Rightarrow> Inr (data\<lparr>zoom := Some v\<rparr>, st, g2))
             else Inr (data, st, g1)))"

definition interesting_rotation :: "'n list \<Rightarrow> 'n strategy" where
  "interesting_rotation ifl data st g =
     (case rotation data of
        None \<Rightarrow> interesting_zoom ifl data st g
      | Some a \<Rightarrow>
          (case random_float g of (r, g1) \<Rightarrow>
             if r < 0.3 then
               (case randint 0 3 g1 of
                  Inl e \<Rightarrow> Inl e
                | Inr (idx, g2) \<Rightarrow>
               (case choice ifl g2 of
                  Inl e \<Rightarrow> Inl e
                | Inr (v, g3) \<Rightarrow>
               (case store_item a idx (\<lambda>_. v) st of
                  Inl e \<Rightarrow> Inl e
                | Inr st1 \<Rightarrow> interesting_zoom ifl data st1 g3)))
             else interesting_zoom ifl data st g1))"

definition interesting_values :: "'n list \<Rightarrow> 'n strategy" where
  "interesting_values ifl data st g =
     (case position data of
        None \<Rightarrow> interesting_rotation ifl data st g
      | Some a \<Rightarrow>
          (case random_float g of (r, g1) \<Rightarrow>
             if r < 0.3 then
               (case randint 0 2 g1 of
                  Inl e \<Rightarrow> Inl e
                | Inr (idx, g2) \<Rightarrow>
               (case choice ifl g2 of
                  Inl e \<Rightarrow> Inl e
                | Inr (v, g3) \<Rightarrow>
               (case store_item a idx (\<lambda>_. v) st of
                  Inl e \<Rightarrow> Inl e
                | Inr st1 \<Rightarrow> interesting_rotation ifl data st1 g3)))
             else interesting_rotation ifl data st g1))"

text \<open>A strategy on the byte payload leaves the store alone.\<close>

definition on_bytes ::
  "((addr, 'n) input \<Rightarrow> rng \<Rightarrow> error + ((addr, 'n) input \<times> rng)) \<Rightarrow> 'n strategy" where
  "on_bytes f data st g =
     (case f data g of Inl e \<Rightarrow> Inl e | Inr (data1, g1) \<Rightarrow> Inr (data1, st, g1))"

definition mutation_strategies :: "('n \<Rightarrow> delta \<Rightarrow> 'n) \<Rightarrow> 'n list \<Rightarrow> 'n strategy list" where
  "mutation_strategies add ifl =
     [on_bytes bit_flip,
      on_bytes byte_flip,
      arithmetic_mutation add,
      interesting_values ifl,
      on_bytes block_shuffle,
      on_bytes truncate_extend,
      on_bytes splice_inputs,
      on_bytes dictionary_mutation]"

fun stack_mutations ::
  "nat \<Rightarrow> 'n strategy list \<Rightarrow> (addr, 'n) input \<Rightarrow> 'n store \<Rightarrow> rng \<Rightarrow>
   error + ((addr, 'n) input \<times> 'n store \<times> rng)" where
  "stack_mutations 0 strategies mutated st g = Inr (mutated, st, g)"
| "stack_mutations (Suc k) strategies mutated st g =
     (case choice strategies g of
        Inl e \<Rightarrow> Inl e
      | Inr (strategy, g1) \<Rightarrow>
     (case strategy mutated st g1 of
        Inl e \<Rightarrow> Inl e
      | Inr (mutated1, st1, g2) \<Rightarrow> stack_mutations k strategies mutated1 st1 g2))"

definition mutate_input ::
  "('n \<Rightarrow> delta \<Rightarrow> 'n) \<Rightarrow> 'n list \<Rightarrow> (addr, 'n) input \<Rightarrow> 'n store \<Rightarrow> rng \<Rightarrow>
   error + ((addr, 'n) input \<times> 'n store \<times> rng)" where
  "mutate_input add ifl input_data st g =
     (case choice (mutation_strategies add ifl) g of
        Inl e \<Rightarrow> Inl e
      | Inr (strategy, g1) \<Rightarrow>
     (case strategy (dict_copy input_data) st g1 of
        Inl e \<Rightarrow> Inl e
      | Inr (mutated, st1, g2) \<Rightarrow>
          (case random_float g2 of (r, g3) \<Rightarrow>
             if r < 0.1 then
               (case randint 2 5 g3 of
                  Inl e \<Rightarrow> Inl e
                | Inr (num_mutations, g4) \<Rightarrow>
                    stack_mutations (nat num_mutations) (mutation_strategies add ifl)
                      mutated st1 g4)
             else Inr (mutated, st1, g3))))"

text \<open>
  \<open>self.interesting_floats\<close> for the concrete codec above, as bit patterns:
  0.0, -0.0, 1.0, -1.0, inf, -inf, nan.
\<close>

definition f32_interesting_floats :: "32 word list" where
  "f32_interesting_floats =
     [0x00000000, 0x80000000, 0x3F800000, 0xBF800000, 0x7F800000, 0xFF800000, 0x7FC00000]"

section \<open>Execution results and the fuzzer state\<close>

text \<open>
  The result dict that \<open>execute_target\<close> builds.  The key \<open>signal\<close> exists only after
  a negative return code, and \<open>coverage\<close> holds \<open>None\<close> or a list.  \<open>fuzz_iteration\<close>
  then adds the key \<open>input\<close> (here \<open>the_input\<close>).  A Python \<open>str\<close> is a \<open>string\<close>, one
  element per character.
\<close>

record exec_result =
  execution_time :: real
  exit_code :: int
  crashed :: bool
  timeout :: bool
  stdout :: string
  stderr :: string
  coverage :: "int list option"
  signal :: "int option"

record 'n result = exec_result +
  the_input :: "('n list, 'n) input"

record stats =
  start_time :: real
  total_executions :: nat
  crashes :: nat
  timeouts :: nat
  interesting_inputs :: nat
  coverage_increase :: nat

text \<open>
  The files and directories the fuzzer writes.  A file holds the bytes of an encoded
  input, the metadata dict given to \<open>json.dump\<close> (timestamp, signal, exit code, execution
  time, stdout, stderr), or text.
\<close>

datatype file_content =
    Binary pybytes
  | JsonMetadata string int int real string string
  | Text string

record filesystem =
  files :: "string \<rightharpoonup> file_content"
  dirs :: "string set"
  modes :: "string \<rightharpoonup> nat"

record fuzzer =
  target_binary :: string
  corpus_dir :: string
  crashes_dir :: string
  stats :: stats
  coverage_map :: "string \<rightharpoonup> bool"
  unique_crashes :: "string set"
  disk :: filesystem

definition path_join :: "string \<Rightarrow> string \<Rightarrow> string" where
  "path_join d name = d @ ''/'' @ name"

definition mkdir :: "string \<Rightarrow> filesystem \<Rightarrow> filesystem" where
  "mkdir p fs = fs\<lparr>dirs := insert p (dirs fs)\<rparr>"

definition write_file :: "string \<Rightarrow> file_content \<Rightarrow> filesystem \<Rightarrow> filesystem" where
  "write_file p c fs = fs\<lparr>files := (files fs)(p \<mapsto> c)\<rparr>"

definition unlink :: "string \<Rightarrow> filesystem \<Rightarrow> filesystem" where
  "unlink p fs = fs\<lparr>files := (files fs)(p := None)\<rparr>"

definition chmod :: "string \<Rightarrow> nat \<Rightarrow> filesystem \<Rightarrow> filesystem" where
  "chmod p m fs = fs\<lparr>modes := (modes fs)(p \<mapsto> m)\<rparr>"

text \<open>\<open>str(i)\<close> for an int, \<open>sep.join(xs)\<close>, and \<open>int(t)\<close> for a float (towards zero).\<close>

fun digits :: "nat \<Rightarrow> string" where
  "digits n =
     (if n < 10 then [''0123456789'' ! n]
      else digits (n div 10) @ [''0123456789'' ! (n mod 10)])"

declare digits.simps [simp del]

definition str_int :: "int \<Rightarrow> string" where
  "str_int i = (if i < 0 then ''-'' @ digits (nat (- i)) else digits (nat i))"

fun join :: "string \<Rightarrow> string list \<Rightarrow> string" where
  "join sep [] = []"
| "join sep [x] = x"
| "join sep (x # y # ys) = x @ sep @ join sep (y # ys)"

definition int_of_float :: "real \<Rightarrow> int" where
  "int_of_float t = (if t < 0 then \<lceil>t\<rceil> else \<lfloor>t\<rfloor>)"

section \<open>\<open>execute_target\<close>\<close>

text \<open>
  What \<open>subprocess.run\<close> does is the parameter \<open>outcome\<close>: the process ends within the
  hard timeout of 2 seconds with a return code, stdout and stderr; or
  \<open>TimeoutExpired\<close> is raised; or the process cannot be started.  \<open>t0\<close> and \<open>t1\<close> are the
  two readings of \<open>time.time()\<close>, \<open>pid\<close> is \<open>os.getpid()\<close>, \<open>dec\<close> is
  \<open>bytes.decode('utf-8', errors='ignore')\<close>, and \<open>cov\<close> is \<open>self.extract_coverage\<close>,
  whose parsing of the \<open>COV:\<close> lines is not modelled.  An exception leaves the state as
  it is when it is raised.
\<close>

datatype proc_outcome = Completed int pybytes pybytes | TimeoutExpired | LaunchError

definition initial_result :: exec_result where
  "initial_result =
     \<lparr>execution_time = 0, exit_code = 0, crashed = False, timeout = False,
      stdout = '''', stderr = '''', coverage = None, signal = None\<rparr>"

definition count_execution :: "fuzzer \<Rightarrow> fuzzer" where
  "count_execution s =
     s\<lparr>stats := (stats s)\<lparr>total_executions := total_executions (stats s) + 1\<rparr>\<rparr>"

definition completed_result ::
  "(pybytes \<Rightarrow> string) \<Rightarrow> (string \<Rightarrow> int list option) \<Rightarrow> real \<Rightarrow> real \<Rightarrow>
   int \<Rightarrow> pybytes \<Rightarrow> pybytes \<Rightarrow> exec_result" where
  "completed_result dec cov t0 t1 returncode out err =
     (let r1 = initial_result\<lparr>execution_time := t1 - t0, exit_code := returncode,
                 stdout := dec out, stderr := dec err\<rparr>;
          r2 = (if returncode < 0 then r1\<lparr>crashed := True, signal := Some (- returncode)\<rparr>
                else r1)
      in case cov (stdout r2) of
           None \<Rightarrow> r2
         | Some c \<Rightarrow> if c \<noteq> [] then r2\<lparr>coverage := Some c\<rparr> else r2)"

definition execute_target ::
  "('n \<Rightarrow> error + pybytes) \<Rightarrow> (pybytes \<Rightarrow> string) \<Rightarrow> (string \<Rightarrow> int list option) \<Rightarrow>
   int \<Rightarrow> proc_outcome \<Rightarrow> real \<Rightarrow> real \<Rightarrow> ('n list, 'n) input \<Rightarrow> fuzzer \<Rightarrow>
   (error + exec_result) \<times> fuzzer" where
  "execute_target pk dec cov pid outcome t0 t1 input_data s =
     (let input_file = ''/tmp/fuzz_input_'' @ str_int pid @ ''.bin'' in
      case write_input_file pk input_data of
        (content, Some e) \<Rightarrow>
          (Inl e, s\<lparr>disk := write_file input_file (Binary content) (disk s)\<rparr>)
      | (content, None) \<Rightarrow>
          (let s1 = s\<lparr>disk := write_file input_file (Binary content) (disk s)\<rparr>;
               s2 = s1\<lparr>disk := unlink input_file (disk s1)\<rparr>
           in case outcome of
                LaunchError \<Rightarrow> (Inl OSError, s2)
              | TimeoutExpired \<Rightarrow>
                  (Inr (initial_result\<lparr>timeout := True, execution_time := t1 - t0\<rparr>),
                   count_execution s2)
              | Completed returncode out err \<Rightarrow>
                  (Inr (completed_result dec cov t0 t1 returncode out err),
                   count_execution s2)))"

section \<open>\<open>is_interesting\<close>\<close>

text \<open>
  \<open>H\<close> is \<open>hashlib.sha256(s.encode()).hexdigest()\<close>, a parameter.  The test
  \<open>result['timeout'] and random.random() < 0.1\<close> draws only for a timed-out result.
\<close>

definition hash_coverage :: "(string \<Rightarrow> string) \<Rightarrow> int list \<Rightarrow> string" where
  "hash_coverage H c = H (join '','' (map str_int (sort c)))"

definition record_coverage :: "string \<Rightarrow> fuzzer \<Rightarrow> fuzzer" where
  "record_coverage h s =
     s\<lparr>coverage_map := (coverage_map s)(h \<mapsto> True),
       stats := (stats s)\<lparr>coverage_increase := coverage_increase (stats s) + 1\<rparr>\<rparr>"

definition unusual :: "'a exec_result_scheme \<Rightarrow> bool" where
  "unusual result =
     (if execution_time result > 0.5 then True
      else if length (stderr result) > 1000 then True
      else False)"

definition check_coverage ::
  "(string \<Rightarrow> string) \<Rightarrow> 'a exec_result_scheme \<Rightarrow> fuzzer \<Rightarrow> rng \<Rightarrow> bool \<times> fuzzer \<times> rng" where
  "check_coverage H result s g =
     (case coverage result of
        None \<Rightarrow> (unusual result, s, g)
      | Some c \<Rightarrow>
          if c \<noteq> [] then
            (let coverage_hash = hash_coverage H c in
             if coverage_map s coverage_hash = None
             then (True, record_coverage coverage_hash s, g)
             else (unusual result, s, g))
          else (unusual result, s, g))"

definition is_interesting ::
  "(string \<Rightarrow> string) \<Rightarrow> 'a exec_result_scheme \<Rightarrow> fuzzer \<Rightarrow> rng \<Rightarrow> bool \<times> fuzzer \<times> rng" where
  "is_interesting H result s g =
     (if crashed result then (True, s, g)
      else if timeout result then
        (case random_float g of (r, g1) \<Rightarrow>
           if r < 0.1 then (True, s, g1) else check_coverage H result s g1)
      else check_coverage H result s g)"

section \<open>\<open>save_crash\<close> and \<open>save_interesting_input\<close>\<close>

text \<open>
  \<open>now_iso\<close> is \<open>datetime.now().isoformat()\<close> and \<open>now\<close> is \<open>time.time()\<close>.  Both
  functions return the exception raised, if any, with the state as it is at that point.
  \<open>result['signal']\<close> raises \<open>KeyError\<close> when the key is missing.  The mode
  \<open>0o755\<close> is 493.
\<close>

definition newline :: string where
  "newline = [CHR 0x0A]"

definition reproduce_script :: "string \<Rightarrow> int option \<Rightarrow> string" where
  "reproduce_script target sg =
     ''#!/bin/bash'' @ newline @
     ''# Crash reproduction script'' @ newline @
     ''# Signal: '' @ (case sg of None \<Rightarrow> ''unknown'' | Some n \<Rightarrow> str_int n) @ newline @
     target @ '' --fuzz-input input.bin'' @ newline"

definition crash_id_of :: "(string \<Rightarrow> string) \<Rightarrow> int \<Rightarrow> string \<Rightarrow> string" where
  "crash_id_of H sg err = take 16 (H (str_int sg @ '':'' @ err))"

definition save_crash ::
  "(string \<Rightarrow> string) \<Rightarrow> ('n \<Rightarrow> error + pybytes) \<Rightarrow> string \<Rightarrow> 'n result \<Rightarrow> fuzzer \<Rightarrow>
   error option \<times> fuzzer" where
  "save_crash H pk now_iso result s =
     (case signal result of
        None \<Rightarrow> (Some KeyError, s)
      | Some sg \<Rightarrow>
          (let crash_id = crash_id_of H sg (stderr result) in
           if crash_id \<in> unique_crashes s then (None, s)
           else
             (let s1 = s\<lparr>unique_crashes := insert crash_id (unique_crashes s)\<rparr>;
                  crash_dir = path_join (crashes_dir s1) crash_id;
                  s2 = s1\<lparr>disk := mkdir crash_dir (disk s1)\<rparr>
              in case write_input_file pk (the_input result) of
                   (content, Some e) \<Rightarrow>
                     (Some e,
                      s2\<lparr>disk := write_file (path_join crash_dir ''input.bin'')
                                    (Binary content) (disk s2)\<rparr>)
                 | (content, None) \<Rightarrow>
                     (let s3 = s2\<lparr>disk := write_file (path_join crash_dir ''input.bin'')
                                             (Binary content) (disk s2)\<rparr>;
                          metadata = JsonMetadata now_iso
                                       (case signal result of None \<Rightarrow> 0 | Some n \<Rightarrow> n)
                                       (exit_code result) (execution_time result)
                                       (take 1000 (stdout result)) (take 1000 (stderr result));
                          s4 = s3\<lparr>disk := write_file (path_join crash_dir ''metadata.json'')
                                             metadata (disk s3)\<rparr>;
                          s5 = s4\<lparr>disk := write_file (path_join crash_dir ''reproduce.sh'')
                                             (Text (reproduce_script (target_binary s4)
                                                      (signal result)))
                                             (disk s4)\<rparr>
                      in (None,
                          s5\<lparr>disk := chmod (path_join crash_dir ''reproduce.sh'') 493
                                        (disk s5)\<rparr>)))))"

definition properties_of :: "'a exec_result_scheme \<Rightarrow> string list" where
  "properties_of result =
     (if crashed result then [''crash''] else []) @
     (if timeout result then [''timeout''] else []) @
     (case coverage result of
        None \<Rightarrow> []
      | Some c \<Rightarrow> if c \<noteq> [] then [''cov''] else [])"

definition interesting_filename :: "real \<Rightarrow> 'a exec_result_scheme \<Rightarrow> string" where
  "interesting_filename now result =
     ''id_'' @ str_int (int_of_float now) @ ''_'' @ join ''_'' (properties_of result) @ ''.bin''"

definition save_interesting_input ::
  "('n \<Rightarrow> error + pybytes) \<Rightarrow> real \<Rightarrow> 'n result \<Rightarrow> fuzzer \<Rightarrow> error option \<times> fuzzer" where
  "save_interesting_input pk now result s =
     (let input_file = path_join (corpus_dir s) (interesting_filename now result) in
      case write_input_file pk (the_input result) of
        (content, err) \<Rightarrow>
          (err, s\<lparr>disk := write_file input_file (Binary content) (disk s)\<rparr>))"

section \<open>Concrete inputs\<close>

text \<open>
  The boundary seed \<open>{'position': [0, 0, 10], 'rotation': [1, 0, 0, 0], 'zoom': 1.0}\<close> of
  \<open>generate_initial_corpus\<close>, with each number as the binary32 pattern of its value
  (the ints 0, 1 and 10 pack to the same bytes as 0.0, 1.0 and 10.0), and its encoding.
\<close>

definition seed_edge :: "(32 word list, 32 word) input" where
  "seed_edge =
     \<lparr>position = Some [0, 0, 0x41200000], rotation = Some [0x3F800000, 0, 0, 0],
      zoom = Some 0x3F800000, bytes = None\<rparr>"


definition bytes8 :: pybytes where
  "bytes8 = [0, 1, 2, 3, 4, 5, 6, 7]"

text \<open>
  The same seed as a dict that holds the addresses 0 and 1 of its two lists, and the store
  with those lists.
\<close>

definition seed_ref :: "(addr, 32 word) input" where
  "seed_ref = \<lparr>position = Some 0, rotation = Some 1, zoom = Some 0x3F800000, bytes = None\<rparr>"

definition seed_store :: "32 word store" where
  "seed_store a =
     (if a = 0 then [0, 0, 0x41200000] else if a = 1 then [0x3F800000, 0, 0, 0] else [])"

text \<open>
  Draws that select \<open>interesting_values\<close> (index 3), 0.0 for the position test, index 2,
  the interesting float number 4 (+inf), and 0.5 for the rotation test, the zoom test and
  the stacking test.
\<close>

definition alias_tape :: "nat list" where
  "alias_tape = [3, 0, 2, 4, 4503599627370496, 4503599627370496, 4503599627370496]"

text \<open>
  A fuzzer as \<open>__init__\<close> leaves it, with its two directories created; and \<open>id_hash\<close>,
  which stands for the hash in the closed examples (the theorems hold for every hash).
\<close>

definition fuzzer0 :: fuzzer where
  "fuzzer0 =
     \<lparr>target_binary = ''./camera_test'', corpus_dir = ''fuzz_corpus'', crashes_dir = ''crashes'',
      stats = \<lparr>start_time = 0, total_executions = 0, crashes = 0, timeouts = 0,
               interesting_inputs = 0, coverage_increase = 0\<rparr>,
      coverage_map = Map.empty, unique_crashes = {},
      disk = \<lparr>files = Map.empty, dirs = {''fuzz_corpus'', ''crashes''}, modes = Map.empty\<rparr>\<rparr>"

definition id_hash :: "string \<Rightarrow> string" where
  "id_hash s = s"

text \<open>Results: a crash with signal 11, and a quiet run that reports coverage.\<close>

definition result_crash :: exec_result where
  "result_crash = initial_result\<lparr>exit_code := - 11, crashed := True, signal := Some 11\<rparr>"

definition result_quiet :: exec_result where
  "result_quiet = initial_result\<lparr>execution_time := 1 / 10, coverage := Some [2, 1]\<rparr>"

text \<open>Two crashes with the same signal and stderr, on different inputs.\<close>

definition crash_a :: "32 word result" where
  "crash_a =
     \<lparr>execution_time = 1 / 100, exit_code = - 11, crashed = True, timeout = False,
      stdout = '''', stderr = ''boom'', coverage = None, signal = Some 11,
      the_input = raw_input [1]\<rparr>"

definition crash_b :: "32 word result" where
  "crash_b =
     \<lparr>execution_time = 2 / 100, exit_code = - 11, crashed = True, timeout = False,
      stdout = '''', stderr = ''boom'', coverage = None, signal = Some 11,
      the_input = raw_input [2]\<rparr>"

text \<open>Two slow runs without crash, timeout or coverage, on different inputs.\<close>

definition slow_a :: "32 word result" where
  "slow_a =
     \<lparr>execution_time = 6 / 10, exit_code = 0, crashed = False, timeout = False,
      stdout = '''', stderr = '''', coverage = None, signal = None,
      the_input = raw_input [1]\<rparr>"

definition slow_b :: "32 word result" where
  "slow_b =
     \<lparr>execution_time = 7 / 10, exit_code = 0, crashed = False, timeout = False,
      stdout = '''', stderr = '''', coverage = None, signal = None,
      the_input = raw_input [2]\<rparr>"

text \<open>
  Stand-ins for the two library-side parameters of \<open>execute_target\<close> in the closed
  examples: an output without coverage lines, and a byte-wise decoding.
\<close>

definition no_coverage :: "string \<Rightarrow> int list option" where
  "no_coverage out = None"

definition latin1 :: "pybytes \<Rightarrow> string" where
  "latin1 b = map (\<lambda>x. char_of (unat x)) b"

section \<open>Encoding: proofs\<close>

lemma py_slice_nonneg:
  "0 \<le> a \<Longrightarrow> 0 \<le> b \<Longrightarrow> py_slice a b xs = take (nat b - nat a) (drop (nat a) xs)"
  by (cases "nat a < length xs") (auto simp: py_slice_def clamp_index_def Let_def min_def)

lemma py_slice_assign_nonneg:
  "0 \<le> a \<Longrightarrow> 0 \<le> b \<Longrightarrow>
   py_slice_assign a b v xs = take (nat a) xs @ v @ drop (max (nat a) (nat b)) xs"
  by (auto simp: py_slice_assign_def clamp_index_def Let_def min_def max_def)



lemma parse_structured_ok:
  assumes "32 \<le> length data"
  shows "\<exists>pos rot z. parse_structured up data =
           Inr \<lparr>position = Some pos, rotation = Some rot, zoom = Some z, bytes = Some data\<rparr>"
  using assms by (simp add: parse_structured_def struct_unpack_def py_slice_nonneg upt_rec)

lemma read_input_file_bytes:
  "\<exists>v. read_input_file up data = Inr v \<and> bytes v = Some data"
proof (cases "32 \<le> length data")
  case True
  from parse_structured_ok [OF True, of up] show ?thesis
    by (auto simp: read_input_file_def True)
next
  case False
  then show ?thesis by (simp add: read_input_file_def raw_input_def)
qed

text \<open>
  C9.  Encoding is a left inverse of decoding: for every byte string \<open>b\<close>, whatever its
  length and whether or not it parses as a structured input, \<open>read_input_file\<close> returns
  an input and \<open>write_input_file\<close> on that input writes exactly \<open>b\<close> and raises nothing.
\<close>

theorem encode_decode_bytes:
  "\<exists>v. read_input_file up b = Inr v \<and> write_input_file pk v = (b, None)"
  using read_input_file_bytes [of up b] by (auto simp: write_input_file_def)

text \<open>
  C3.  \<open>read_input_file\<close> returns an input for every byte string and never raises; when
  the string is shorter than 32 bytes, or when the structured parse raises, the input
  holds the bytes and no structured field.
\<close>

theorem read_input_file_never_raises:
  "(\<exists>v. read_input_file up b = Inr v) \<and>
   (length b < 32 \<longrightarrow>
      read_input_file up b =
        Inr \<lparr>position = None, rotation = None, zoom = None, bytes = Some b\<rparr>) \<and>
   (\<forall>e. parse_structured up b = Inl e \<longrightarrow>
      read_input_file up b =
        Inr \<lparr>position = None, rotation = None, zoom = None, bytes = Some b\<rparr>)"
  by (auto simp: read_input_file_def raw_input_def split: sum.splits)

text \<open>Witness for C3: the empty byte string, whose structured parse raises.\<close>

theorem read_input_file_never_raises_witness:
  "length ([] :: pybytes) < 32 \<and>
   parse_structured f32_unpack [] = Inl StructError \<and>
   read_input_file f32_unpack [] =
     Inr \<lparr>position = None, rotation = None, zoom = None, bytes = Some []\<rparr>"
  using read_input_file_never_raises [of f32_unpack "[]"]
  by (simp add: parse_structured_def struct_unpack_def py_slice_nonneg)








section \<open>Byte strategies: proofs\<close>

lemma next_raw_tape_of [simp]:
  "next_raw (tape_of (x # xs)) = (x, tape_of xs)"
  "next_raw (tape_of []) = (0, tape_of [])"
  by (auto simp: next_raw_def fun_eq_iff)

lemma randint_ok:
  assumes "a \<le> b"
  shows "\<exists>v g'. randint a b g = Inr (v, g') \<and> a \<le> v \<and> v \<le> b"
proof -
  obtain r g' where n: "next_raw g = (r, g')" by (cases "next_raw g")
  from assms have m: "0 < b - a + 1" by simp
  have "0 \<le> int r mod (b - a + 1)" "int r mod (b - a + 1) < b - a + 1"
    using m by (rule pos_mod_sign, rule pos_mod_bound)
  with assms n show ?thesis by (simp add: randint_def)
qed

lemma choice_ok:
  assumes "xs \<noteq> []"
  shows "\<exists>x g'. choice xs g = Inr (x, g') \<and> x \<in> set xs"
proof -
  obtain r g' where n: "next_raw g = (r, g')" by (cases "next_raw g")
  with assms show ?thesis by (simp add: choice_def)
qed

lemma py_index_ok: "0 \<le> i \<Longrightarrow> i < int n \<Longrightarrow> py_index n i = Inr (nat i)"
  by (simp add: py_index_def)

lemma flip_bits_ok:
  "bs \<noteq> [] \<Longrightarrow> \<exists>bs' g'. flip_bits k bs g = Inr (bs', g') \<and> length bs' = length bs"
proof (induction k arbitrary: bs g)
  case 0
  then show ?case by simp
next
  case (Suc k)
  from Suc.prems have "0 \<le> int (length bs) - 1" by (cases bs) auto
  from randint_ok [OF this, of g] obtain i g1 where
    i: "randint 0 (int (length bs) - 1) g = Inr (i, g1)" "0 \<le> i" "i \<le> int (length bs) - 1"
    by blast
  from randint_ok [of 0 7 g1] obtain j g2 where
    j: "randint 0 7 g1 = Inr (j, g2)" "0 \<le> j" "j \<le> 7" by auto
  from i have p: "py_index (length bs) i = Inr (nat i)" by (simp add: py_index_ok)
  let ?bs = "bs[nat i := bs ! nat i XOR push_bit (nat j) 1]"
  from Suc.prems have "?bs \<noteq> []" by simp
  from Suc.IH [OF this, of g2] i j p show ?case by auto
qed

lemma flip_bytes_ok:
  "bs \<noteq> [] \<Longrightarrow> \<exists>bs' g'. flip_bytes k bs g = Inr (bs', g') \<and> length bs' = length bs"
proof (induction k arbitrary: bs g)
  case 0
  then show ?case by simp
next
  case (Suc k)
  from Suc.prems have "0 \<le> int (length bs) - 1" by (cases bs) auto
  from randint_ok [OF this, of g] obtain i g1 where
    i: "randint 0 (int (length bs) - 1) g = Inr (i, g1)" "0 \<le> i" "i \<le> int (length bs) - 1"
    by blast
  from i have p: "py_index (length bs) i = Inr (nat i)" by (simp add: py_index_ok)
  let ?bs = "bs[nat i := bs ! nat i XOR 0xFF]"
  from Suc.prems have "?bs \<noteq> []" by simp
  from Suc.IH [OF this, of g1] i p show ?case by auto
qed

lemma bit_flip_total: "\<exists>d g'. bit_flip data g = Inr (d, g')"
proof (cases "bytes data")
  case None
  then show ?thesis by (simp add: bit_flip_def)
next
  case (Some b)
  show ?thesis
  proof (cases "b = []")
    case True
    with Some show ?thesis by (simp add: bit_flip_def)
  next
    case False
    from randint_ok [of 1 8 g] obtain n g1 where n: "randint 1 8 g = Inr (n, g1)" by auto
    from flip_bits_ok [OF False, of "nat n" g1] obtain b' g2 where
      "flip_bits (nat n) b g1 = Inr (b', g2)" by blast
    with Some False n show ?thesis by (simp add: bit_flip_def)
  qed
qed

lemma byte_flip_total: "\<exists>d g'. byte_flip data g = Inr (d, g')"
proof (cases "bytes data")
  case None
  then show ?thesis by (simp add: byte_flip_def)
next
  case (Some b)
  show ?thesis
  proof (cases "b = []")
    case True
    with Some show ?thesis by (simp add: byte_flip_def)
  next
    case False
    from randint_ok [of 1 4 g] obtain n g1 where n: "randint 1 4 g = Inr (n, g1)" by auto
    from flip_bytes_ok [OF False, of "nat n" g1] obtain b' g2 where
      "flip_bytes (nat n) b g1 = Inr (b', g2)" by blast
    with Some False n show ?thesis by (simp add: byte_flip_def)
  qed
qed

lemma truncate_extend_total: "\<exists>d g'. truncate_extend data g = Inr (d, g')"
proof (cases "bytes data")
  case None
  then show ?thesis by (simp add: truncate_extend_def)
next
  case (Some b)
  obtain r g1 where r: "random_float g = (r, g1)" by (cases "random_float g")
  show ?thesis
  proof (cases "r < 0.5")
    case True
    show ?thesis
    proof (cases "length b > 4")
      case l: True
      then have "1 \<le> int (length b) - 1" by simp
      from randint_ok [OF this, of g1] obtain n g2 where
        "randint 1 (int (length b) - 1) g1 = Inr (n, g2)" by blast
      with Some r True l show ?thesis by (simp add: truncate_extend_def)
    next
      case False
      with Some r True show ?thesis by (simp add: truncate_extend_def)
    qed
  next
    case False
    from randint_ok [of 1 100 g1] obtain n g2 where n: "randint 1 100 g1 = Inr (n, g2)" by auto
    obtain r2 g3 where r2: "random_float g2 = (r2, g3)" by (cases "random_float g2")
    obtain rb g4 where rb: "urandom (nat n) g3 = (rb, g4)" by (cases "urandom (nat n) g3")
    from Some r False n r2 rb show ?thesis by (simp add: truncate_extend_def)
  qed
qed

lemma splice_inputs_total: "\<exists>d g'. splice_inputs data g = Inr (d, g')"
proof (cases "bytes data")
  case None
  then show ?thesis by (simp add: splice_inputs_def)
next
  case (Some b)
  show ?thesis
  proof (cases "length b > 8")
    case True
    then have "0 \<le> int (length b) - 4" by simp
    from randint_ok [OF this, of g] obtain start g1 where
      s: "randint 0 (int (length b) - 4) g = Inr (start, g1)" "0 \<le> start"
         "start \<le> int (length b) - 4" by blast
    then have "4 \<le> min 32 (int (length b) - start)" by simp
    from randint_ok [OF this, of g1] obtain len g2 where
      l: "randint 4 (min 32 (int (length b) - start)) g1 = Inr (len, g2)" by blast
    from randint_ok [of 0 "int (length b)" g2] obtain ip g3 where
      i: "randint 0 (int (length b)) g2 = Inr (ip, g3)" by auto
    from Some True s l i show ?thesis by (simp add: splice_inputs_def)
  next
    case False
    with Some show ?thesis by (simp add: splice_inputs_def)
  qed
qed

lemma tokens_nonempty: "tokens \<noteq> []"
  by (simp add: tokens_def)

lemma dictionary_mutation_total: "\<exists>d g'. dictionary_mutation data g = Inr (d, g')"
proof (cases "bytes data")
  case None
  then show ?thesis by (simp add: dictionary_mutation_def)
next
  case (Some b)
  from choice_ok [OF tokens_nonempty, of g] obtain token g1 where
    t: "choice tokens g = Inr (token, g1)" by blast
  show ?thesis
  proof (cases "length b \<ge> length token")
    case True
    then have "0 \<le> int (length b) - int (length token)" by simp
    from randint_ok [OF this, of g1] obtain pos g2 where
      "randint 0 (int (length b) - int (length token)) g1 = Inr (pos, g2)" by blast
    with Some t True show ?thesis by (simp add: dictionary_mutation_def)
  next
    case False
    with Some t show ?thesis by (simp add: dictionary_mutation_def)
  qed
qed

lemma block_shuffle_total: "\<exists>d g'. block_shuffle data g = Inr (d, g')"
proof (cases "bytes data")
  case None
  then show ?thesis by (simp add: block_shuffle_def)
next
  case (Some b)
  show ?thesis
  proof (cases "length b < 8")
    case True
    with Some show ?thesis by (simp add: block_shuffle_def)
  next
    case False
    from choice_ok [of "[4, 8, 16, 32 :: int]" g] obtain bs g1 where
      c: "choice [4, 8, 16, 32 :: int] g = Inr (bs, g1)" by auto
    show ?thesis
    proof (cases "bs > int (length b) div 2")
      case True
      with Some False c show ?thesis by (simp add: block_shuffle_def)
    next
      case nb: False
      then have "0 \<le> int (length b) - bs" by linarith
      from randint_ok [OF this] obtain i1 g2 i2 g3 where
        "randint 0 (int (length b) - bs) g1 = Inr (i1, g2)"
        "randint 0 (int (length b) - bs) g2 = Inr (i2, g3)" by metis
      with Some False c nb show ?thesis by (simp add: block_shuffle_def)
    qed
  qed
qed

text \<open>
  C10.  Every strategy on the byte payload is total: for every input with a byte payload
  of any length (the empty payload and payloads below a strategy's useful size included)
  and for every outcome of the random draws, the strategy returns an input and raises
  nothing.
\<close>

theorem byte_strategies_total:
  "(\<exists>d g'. bit_flip (x\<lparr>bytes := Some b\<rparr>) g = Inr (d, g')) \<and>
   (\<exists>d g'. byte_flip (x\<lparr>bytes := Some b\<rparr>) g = Inr (d, g')) \<and>
   (\<exists>d g'. block_shuffle (x\<lparr>bytes := Some b\<rparr>) g = Inr (d, g')) \<and>
   (\<exists>d g'. truncate_extend (x\<lparr>bytes := Some b\<rparr>) g = Inr (d, g')) \<and>
   (\<exists>d g'. splice_inputs (x\<lparr>bytes := Some b\<rparr>) g = Inr (d, g')) \<and>
   (\<exists>d g'. dictionary_mutation (x\<lparr>bytes := Some b\<rparr>) g = Inr (d, g'))"
  using bit_flip_total byte_flip_total block_shuffle_total truncate_extend_total
    splice_inputs_total dictionary_mutation_total by blast

section \<open>\<open>block_shuffle\<close>: proofs\<close>

lemma py_slice_nat: "py_slice (int a) (int a + int n) xs = take n (drop a xs)"
  using py_slice_nonneg [of "int a" "int a + int n" xs] by (simp add: nat_add_distrib)

lemma py_slice_assign_nat:
  "py_slice_assign (int a) (int a + int n) v xs = take a xs @ v @ drop (a + n) xs"
  using py_slice_assign_nonneg [of "int a" "int a + int n" v xs] by (simp add: nat_add_distrib)

lemma swap_blocks_nat:
  "swap_blocks (int i) (int j) (int n) b =
     (let b1 = take i b @ take n (drop j b) @ drop (i + n) b
      in take j b1 @ take n (drop i b) @ drop (j + n) b1)"
  by (simp only: swap_blocks_def Let_def py_slice_nat py_slice_assign_nat)

lemma swap_blocks_disjoint1:
  assumes "length B2 = length B1"
  shows "swap_blocks (int (length p)) (int (length p + length B1 + length m)) (int (length B1))
           (p @ B1 @ m @ B2 @ r) = p @ B2 @ m @ B1 @ r"
  unfolding swap_blocks_nat Let_def using assms by simp

lemma swap_blocks_disjoint2:
  assumes "length B2 = length B1"
  shows "swap_blocks (int (length p + length B1 + length m)) (int (length p)) (int (length B1))
           (p @ B1 @ m @ B2 @ r) = p @ B2 @ m @ B1 @ r"
  unfolding swap_blocks_nat Let_def using assms by simp

lemma length_swap_blocks_nat:
  assumes "i + n \<le> length b" "j + n \<le> length b"
  shows "length (swap_blocks (int i) (int j) (int n) b) = length b"
  unfolding swap_blocks_nat Let_def using assms by simp


text \<open>
  C7, amended.  For an input with byte payload \<open>b\<close>, \<open>block_shuffle\<close> is a no-op when
  \<open>b\<close> has fewer than 8 bytes, and otherwise draws a block length from 4, 8, 16, 32 and
  is a no-op when \<open>b\<close> is shorter than twice that length.  When \<open>b\<close> is long enough it
  draws two offsets, independently, each with its block inside the payload (the two
  blocks may overlap); it returns \<open>b\<close> when the offsets are equal and otherwise stores
  the block read at the second offset at the first, then the block read at the first
  offset at the second, which keeps the length of the payload.  When the two blocks do
  not overlap, that is the payload with the two blocks exchanged.
\<close>

theorem block_shuffle_amended:
  assumes b: "bytes data = Some b"
  shows
    "(length b < 8 \<longrightarrow> block_shuffle data g = Inr (data, g)) \<and>
     (8 \<le> length b \<longrightarrow>
        (\<exists>block_size g1.
           choice [4, 8, 16, 32] g = Inr (block_size, g1) \<and> block_size \<in> {4, 8, 16, 32} \<and>
           (int (length b) < 2 * block_size \<longrightarrow> block_shuffle data g = Inr (data, g1)) \<and>
           (2 * block_size \<le> int (length b) \<longrightarrow>
              (\<exists>idx1 g2 idx2 g3.
                 randint 0 (int (length b) - block_size) g1 = Inr (idx1, g2) \<and>
                 randint 0 (int (length b) - block_size) g2 = Inr (idx2, g3) \<and>
                 0 \<le> idx1 \<and> idx1 + block_size \<le> int (length b) \<and>
                 0 \<le> idx2 \<and> idx2 + block_size \<le> int (length b) \<and>
                 block_shuffle data g =
                   Inr (data\<lparr>bytes := Some (if idx1 = idx2 then b
                                              else swap_blocks idx1 idx2 block_size b)\<rparr>, g3) \<and>
                 length (swap_blocks idx1 idx2 block_size b) = length b)))) \<and>
     (\<forall>p B1 m B2 r. b = p @ B1 @ m @ B2 @ r \<and> length B2 = length B1 \<longrightarrow>
        swap_blocks (int (length p)) (int (length p + length B1 + length m))
          (int (length B1)) b = p @ B2 @ m @ B1 @ r \<and>
        swap_blocks (int (length p + length B1 + length m)) (int (length p))
          (int (length B1)) b = p @ B2 @ m @ B1 @ r)"
proof (intro conjI impI allI)
  assume "length b < 8"
  with b show "block_shuffle data g = Inr (data, g)" by (simp add: block_shuffle_def)
next
  assume l: "8 \<le> length b"
  from choice_ok [of "[4, 8, 16, 32 :: int]" g] obtain bs g1 where
    c: "choice [4, 8, 16, 32 :: int] g = Inr (bs, g1)" and bs: "bs \<in> {4, 8, 16, 32}" by auto
  have small: "block_shuffle data g = Inr (data, g1)" if "int (length b) < 2 * bs"
  proof -
    from that have "bs > int (length b) div 2" by linarith
    with b l c show ?thesis by (simp add: block_shuffle_def)
  qed
  have big: "\<exists>idx1 g2 idx2 g3.
                 randint 0 (int (length b) - bs) g1 = Inr (idx1, g2) \<and>
                 randint 0 (int (length b) - bs) g2 = Inr (idx2, g3) \<and>
                 0 \<le> idx1 \<and> idx1 + bs \<le> int (length b) \<and>
                 0 \<le> idx2 \<and> idx2 + bs \<le> int (length b) \<and>
                 block_shuffle data g =
                   Inr (data\<lparr>bytes := Some (if idx1 = idx2 then b
                                              else swap_blocks idx1 idx2 bs b)\<rparr>, g3) \<and>
                 length (swap_blocks idx1 idx2 bs b) = length b"
    if big: "2 * bs \<le> int (length b)"
  proof -
    from big have nb: "\<not> bs > int (length b) div 2" by linarith
    from big bs have r: "0 \<le> int (length b) - bs" by auto
    from randint_ok [OF r, of g1] obtain i1 g2 where
      i1: "randint 0 (int (length b) - bs) g1 = Inr (i1, g2)" "0 \<le> i1"
          "i1 \<le> int (length b) - bs" by blast
    from randint_ok [OF r, of g2] obtain i2 g3 where
      i2: "randint 0 (int (length b) - bs) g2 = Inr (i2, g3)" "0 \<le> i2"
          "i2 \<le> int (length b) - bs" by blast
    from bs have bs0: "0 \<le> bs" by auto
    have "length (swap_blocks (int (nat i1)) (int (nat i2)) (int (nat bs)) b) = length b"
      using i1 i2 bs0 by (intro length_swap_blocks_nat) linarith+
    with i1 i2 bs0 have len: "length (swap_blocks i1 i2 bs b) = length b" by simp
    have run: "block_shuffle data g =
                 Inr (data\<lparr>bytes := Some (if i1 = i2 then b else swap_blocks i1 i2 bs b)\<rparr>, g3)"
      using b l c nb i1(1) i2(1) by (simp add: block_shuffle_def)
    from i1 i2 len run show ?thesis by (intro exI conjI) (assumption | linarith)+
  qed
  from c bs small big
  show "\<exists>block_size g1.
           choice [4, 8, 16, 32] g = Inr (block_size, g1) \<and> block_size \<in> {4, 8, 16, 32} \<and>
           (int (length b) < 2 * block_size \<longrightarrow> block_shuffle data g = Inr (data, g1)) \<and>
           (2 * block_size \<le> int (length b) \<longrightarrow>
              (\<exists>idx1 g2 idx2 g3.
                 randint 0 (int (length b) - block_size) g1 = Inr (idx1, g2) \<and>
                 randint 0 (int (length b) - block_size) g2 = Inr (idx2, g3) \<and>
                 0 \<le> idx1 \<and> idx1 + block_size \<le> int (length b) \<and>
                 0 \<le> idx2 \<and> idx2 + block_size \<le> int (length b) \<and>
                 block_shuffle data g =
                   Inr (data\<lparr>bytes := Some (if idx1 = idx2 then b
                                              else swap_blocks idx1 idx2 block_size b)\<rparr>, g3) \<and>
                 length (swap_blocks idx1 idx2 block_size b) = length b))"
    by blast
next
  fix p B1 m B2 r
  assume "b = p @ B1 @ m @ B2 @ r \<and> length B2 = length B1"
  then show "swap_blocks (int (length p)) (int (length p + length B1 + length m))
          (int (length B1)) b = p @ B2 @ m @ B1 @ r"
    by (simp only: swap_blocks_disjoint1)
next
  fix p B1 m B2 r
  assume "b = p @ B1 @ m @ B2 @ r \<and> length B2 = length B1"
  then show "swap_blocks (int (length p + length B1 + length m)) (int (length p))
          (int (length B1)) b = p @ B2 @ m @ B1 @ r"
    by (simp only: swap_blocks_disjoint2)
qed

lemma swap_blocks_overlap: "swap_blocks 0 1 4 bytes8 = [1, 0, 1, 2, 3, 5, 6, 7]"
  by (simp add: bytes8_def swap_blocks_def py_slice_nonneg py_slice_assign_nonneg)

text \<open>
  C7, as stated, fails: on an 8-byte payload the draws can give block length 4 and the
  offsets 0 and 1, whose blocks overlap; the result is neither the payload nor the payload
  with two blocks exchanged (the byte 4 is lost and the byte 1 occurs twice).
\<close>

theorem block_shuffle_overlap_counterexample:
  "choice [4, 8, 16, 32 :: int] (tape_of [0, 0, 1]) = Inr (4, tape_of [0, 1]) \<and>
   randint 0 (int (length bytes8) - 4) (tape_of [0, 1]) = Inr (0, tape_of [1]) \<and>
   randint 0 (int (length bytes8) - 4) (tape_of [1]) = Inr (1, tape_of []) \<and>
   block_shuffle (raw_input bytes8 :: (addr, 32 word) input) (tape_of [0, 0, 1]) =
     Inr (raw_input [1, 0, 1, 2, 3, 5, 6, 7], tape_of [])"
  by (simp add: block_shuffle_def raw_input_def choice_def randint_def swap_blocks_overlap)
     (simp add: bytes8_def)

text \<open>Witness for C7 as amended: block length 4 at the offsets 0 and 4.\<close>

theorem block_shuffle_amended_witness:
  "bytes (raw_input bytes8 :: (addr, 32 word) input) = Some bytes8 \<and>
   8 \<le> length bytes8 \<and>
   bytes8 = [] @ [0, 1, 2, 3] @ [] @ [4, 5, 6, 7] @ [] \<and>
   swap_blocks 0 4 4 bytes8 = [4, 5, 6, 7, 0, 1, 2, 3] \<and>
   block_shuffle (raw_input bytes8 :: (addr, 32 word) input) (tape_of [0, 0, 4]) =
     Inr (raw_input [4, 5, 6, 7, 0, 1, 2, 3], tape_of [])"
proof -
  have h: "bytes (raw_input bytes8 :: (addr, 32 word) input) = Some bytes8"
    by (simp add: raw_input_def)
  have d: "bytes8 = [] @ [0, 1, 2, 3] @ [] @ [4, 5, 6, 7] @ []" by (simp add: bytes8_def)
  from block_shuffle_amended [OF h, of "tape_of [0, 0, 4]"]
  have "\<forall>p B1 m B2 r. bytes8 = p @ B1 @ m @ B2 @ r \<and> length B2 = length B1 \<longrightarrow>
        swap_blocks (int (length p)) (int (length p + length B1 + length m))
          (int (length B1)) bytes8 = p @ B2 @ m @ B1 @ r" by blast
  from this [rule_format, of "[]" "[0, 1, 2, 3]" "[]" "[4, 5, 6, 7]" "[]"] d
  have s: "swap_blocks 0 4 4 bytes8 = [4, 5, 6, 7, 0, 1, 2, 3]" by simp
  have l: "8 \<le> length bytes8" by (simp add: bytes8_def)
  have run: "block_shuffle (raw_input bytes8 :: (addr, 32 word) input) (tape_of [0, 0, 4]) =
     Inr (raw_input [4, 5, 6, 7, 0, 1, 2, 3], tape_of [])"
    by (simp add: block_shuffle_def raw_input_def choice_def randint_def s) (simp add: bytes8_def)
  from h l d s run show ?thesis by blast
qed

section \<open>\<open>mutate_input\<close>: the seed is shared\<close>

lemma random_float_half [simp]:
  "random_float (tape_of (4503599627370496 # xs)) = (1 / 2, tape_of xs)"
  by (simp add: random_float_def)

lemma random_float_zero [simp]:
  "random_float (tape_of (0 # xs)) = (0, tape_of xs)"
  by (simp add: random_float_def)

lemma interesting_values_seed:
  "interesting_values f32_interesting_floats seed_ref seed_store
     (tape_of [0, 2, 4, 4503599627370496, 4503599627370496, 4503599627370496]) =
   Inr (seed_ref, seed_store(0 := [0, 0, 0x7F800000]), tape_of [4503599627370496])"
  by (simp add: interesting_values_def interesting_rotation_def interesting_zoom_def
      seed_ref_def randint_def choice_def f32_interesting_floats_def store_item_def
      py_index_def seed_store_def)

text \<open>
  C1 fails on the code.  \<open>mutate_input\<close> copies the seed dict with \<open>dict.copy()\<close>,
  which shares the \<open>position\<close> and \<open>rotation\<close> lists with the seed.  With the draws
  of \<open>alias_tape\<close> the strategy is \<open>interesting_values\<close>, which stores +inf at index 2
  of the position list: the returned dict holds the very same list, and the seed itself,
  read after the call, has the position \<open>[0, 0, inf]\<close> instead of \<open>[0, 0, 10]\<close>.
  This holds whatever the addition \<open>add\<close> of the numbers is.
\<close>

theorem mutate_input_aliases_seed:
  "mutate_input add f32_interesting_floats seed_ref seed_store (tape_of alias_tape) =
     Inr (seed_ref, seed_store(0 := [0, 0, 0x7F800000]), tape_of []) \<and>
   deref seed_store seed_ref = seed_edge \<and>
   deref (seed_store(0 := [0, 0, 0x7F800000])) seed_ref =
     seed_edge\<lparr>position := Some [0, 0, 0x7F800000]\<rparr> \<and>
   deref (seed_store(0 := [0, 0, 0x7F800000])) seed_ref \<noteq> deref seed_store seed_ref"
proof -
  have c: "dict_copy seed_ref = seed_ref" by (simp add: dict_copy_def seed_ref_def)
  have m: "mutate_input add f32_interesting_floats seed_ref seed_store (tape_of alias_tape) =
     Inr (seed_ref, seed_store(0 := [0, 0, 0x7F800000]), tape_of [])"
    by (simp add: mutate_input_def alias_tape_def choice_def mutation_strategies_def c
        interesting_values_seed)
  have d1: "deref seed_store seed_ref = seed_edge"
    by (simp add: deref_def seed_ref_def seed_store_def seed_edge_def)
  have d2: "deref (seed_store(0 := [0, 0, 0x7F800000])) seed_ref =
     seed_edge\<lparr>position := Some [0, 0, 0x7F800000]\<rparr>"
    by (simp add: deref_def seed_ref_def seed_store_def seed_edge_def)
  have d3: "seed_edge\<lparr>position := Some [0, 0, 0x7F800000]\<rparr> \<noteq> seed_edge"
    by (simp add: seed_edge_def)
  from m d1 d2 d3 show ?thesis by simp
qed

section \<open>\<open>is_interesting\<close>: proofs\<close>

lemma check_coverage_cases:
  "check_coverage H result s g = (unusual result, s, g) \<or>
   (\<exists>c. coverage result = Some c \<and> c \<noteq> [] \<and> coverage_map s (hash_coverage H c) = None \<and>
        check_coverage H result s g = (True, record_coverage (hash_coverage H c) s, g))"
  by (auto simp: check_coverage_def Let_def split: option.splits)

text \<open>
  C4.  \<open>is_interesting\<close> follows the precedence: a crashed result is interesting for
  every draw and every coverage map, and the state is unchanged; a result that is not
  crashed and not timed out, whose coverage hash is already in the coverage map, whose
  execution time is at most 0.5 seconds and whose stderr has at most 1000 characters, is
  not interesting, and the state is unchanged.  In every case the call either leaves the
  state unchanged or took the new-coverage path: the result is not crashed, its coverage
  is non-empty with a hash not yet in the map, the answer is \<open>True\<close>, and the state
  differs only by that hash added to the map and the coverage counter incremented by one.
\<close>

theorem is_interesting_precedence:
  "(crashed result \<longrightarrow> is_interesting H result s g = (True, s, g)) \<and>
   (\<not> crashed result \<and> \<not> timeout result \<and> coverage result = Some c \<and>
    coverage_map s (hash_coverage H c) \<noteq> None \<and>
    execution_time result \<le> 0.5 \<and> length (stderr result) \<le> 1000 \<longrightarrow>
      is_interesting H result s g = (False, s, g)) \<and>
   (\<forall>b s' g'. is_interesting H result s g = (b, s', g') \<longrightarrow>
      s' = s \<or>
      (\<exists>c. \<not> crashed result \<and> coverage result = Some c \<and> c \<noteq> [] \<and>
           coverage_map s (hash_coverage H c) = None \<and> b \<and>
           s' = s\<lparr>coverage_map := (coverage_map s)(hash_coverage H c \<mapsto> True),
                  stats := (stats s)\<lparr>coverage_increase := coverage_increase (stats s) + 1\<rparr>\<rparr>))"
proof (intro conjI impI allI)
  assume "crashed result"
  then show "is_interesting H result s g = (True, s, g)" by (simp add: is_interesting_def)
next
  assume "\<not> crashed result \<and> \<not> timeout result \<and> coverage result = Some c \<and>
    coverage_map s (hash_coverage H c) \<noteq> None \<and>
    execution_time result \<le> 0.5 \<and> length (stderr result) \<le> 1000"
  then show "is_interesting H result s g = (False, s, g)"
    by (auto simp: is_interesting_def check_coverage_def unusual_def Let_def)
next
  fix b s' g'
  assume a: "is_interesting H result s g = (b, s', g')"
  show "s' = s \<or>
      (\<exists>c. \<not> crashed result \<and> coverage result = Some c \<and> c \<noteq> [] \<and>
           coverage_map s (hash_coverage H c) = None \<and> b \<and>
           s' = s\<lparr>coverage_map := (coverage_map s)(hash_coverage H c \<mapsto> True),
                  stats := (stats s)\<lparr>coverage_increase := coverage_increase (stats s) + 1\<rparr>\<rparr>)"
  proof (cases "crashed result")
    case True
    with a show ?thesis by (simp add: is_interesting_def)
  next
    case False
    obtain r g1 where r: "random_float g = (r, g1)" by (cases "random_float g")
    from a False r have
      "(b, s', g') = (True, s, g1) \<or> (b, s', g') = check_coverage H result s g1 \<or>
       (b, s', g') = check_coverage H result s g"
      by (auto simp: is_interesting_def split: if_splits)
    with check_coverage_cases [of H result s g] check_coverage_cases [of H result s g1] False
    show ?thesis by (auto simp: record_coverage_def)
  qed
qed

lemma digits_small: "n < 10 \<Longrightarrow> digits n = [''0123456789'' ! n]"
  by (simp add: digits.simps)

lemma hash_quiet: "hash_coverage id_hash [2, 1] = ''1,2''"
  by (simp add: hash_coverage_def id_hash_def str_int_def digits_small)

text \<open>
  Witness for C4: a crashed result, a quiet result whose coverage hash is known, and the
  same quiet result on a fresh fuzzer (the new-coverage path).
\<close>

theorem is_interesting_precedence_witness:
  "crashed result_crash \<and>
   is_interesting id_hash result_crash fuzzer0 (tape_of []) = (True, fuzzer0, tape_of []) \<and>
   \<not> crashed result_quiet \<and> \<not> timeout result_quiet \<and> coverage result_quiet = Some [2, 1] \<and>
   coverage_map (fuzzer0\<lparr>coverage_map := [''1,2'' \<mapsto> True]\<rparr>) (hash_coverage id_hash [2, 1]) \<noteq> None \<and>
   execution_time result_quiet \<le> 0.5 \<and> length (stderr result_quiet) \<le> 1000 \<and>
   is_interesting id_hash result_quiet (fuzzer0\<lparr>coverage_map := [''1,2'' \<mapsto> True]\<rparr>) (tape_of []) =
     (False, fuzzer0\<lparr>coverage_map := [''1,2'' \<mapsto> True]\<rparr>, tape_of []) \<and>
   is_interesting id_hash result_quiet fuzzer0 (tape_of []) =
     (True, fuzzer0\<lparr>coverage_map := [''1,2'' \<mapsto> True],
                   stats := (stats fuzzer0)\<lparr>coverage_increase := 1\<rparr>\<rparr>, tape_of [])"
proof -
  have c: "crashed result_crash" by (simp add: result_crash_def)
  have q: "\<not> crashed result_quiet \<and> \<not> timeout result_quiet \<and> coverage result_quiet = Some [2, 1] \<and>
    coverage_map (fuzzer0\<lparr>coverage_map := [''1,2'' \<mapsto> True]\<rparr>) (hash_coverage id_hash [2, 1]) \<noteq> None \<and>
    execution_time result_quiet \<le> 0.5 \<and> length (stderr result_quiet) \<le> 1000"
    by (simp add: result_quiet_def initial_result_def hash_quiet)
  have n: "is_interesting id_hash result_quiet fuzzer0 (tape_of []) =
     (True, fuzzer0\<lparr>coverage_map := [''1,2'' \<mapsto> True],
                   stats := (stats fuzzer0)\<lparr>coverage_increase := 1\<rparr>\<rparr>, tape_of [])"
    by (simp add: is_interesting_def check_coverage_def hash_quiet record_coverage_def
        result_quiet_def initial_result_def fuzzer0_def)
  from is_interesting_precedence [of result_crash id_hash fuzzer0 "tape_of []"] c
  have 1: "is_interesting id_hash result_crash fuzzer0 (tape_of []) = (True, fuzzer0, tape_of [])"
    by blast
  from is_interesting_precedence [of result_quiet id_hash
      "fuzzer0\<lparr>coverage_map := [''1,2'' \<mapsto> True]\<rparr>" "tape_of []" "[2, 1]"] q
  have 2: "is_interesting id_hash result_quiet (fuzzer0\<lparr>coverage_map := [''1,2'' \<mapsto> True]\<rparr>) (tape_of []) =
     (False, fuzzer0\<lparr>coverage_map := [''1,2'' \<mapsto> True]\<rparr>, tape_of [])"
    by blast
  from c q 1 2 n show ?thesis by blast
qed

section \<open>\<open>save_crash\<close> and \<open>save_interesting_input\<close>: proofs\<close>

text \<open>
  C5.  For two results with the same signal and the same stderr, calling \<open>save_crash\<close>
  on one and then on the other (from any state, at any times, in either order): the
  second call raises nothing and returns the state, files and directories included,
  exactly as the first call left it; the signature set after the calls is the set before
  with the one signature added; no directory disappears and at most the directory of
  that signature is created, and exactly that directory when the signature was new.
\<close>

theorem save_crash_dedup:
  assumes s1: "signal r1 = Some sg" and s2: "signal r2 = Some sg" and e: "stderr r2 = stderr r1"
  shows "\<exists>e1 s1.
           save_crash H pk t1 r1 s = (e1, s1) \<and>
           save_crash H pk t2 r2 s1 = (None, s1) \<and>
           unique_crashes s1 = insert (crash_id_of H sg (stderr r1)) (unique_crashes s) \<and>
           dirs (disk s) \<subseteq> dirs (disk s1) \<and>
           dirs (disk s1) \<subseteq>
             insert (path_join (crashes_dir s) (crash_id_of H sg (stderr r1))) (dirs (disk s)) \<and>
           (crash_id_of H sg (stderr r1) \<notin> unique_crashes s \<longrightarrow>
              dirs (disk s1) =
                insert (path_join (crashes_dir s) (crash_id_of H sg (stderr r1))) (dirs (disk s)))"
proof (cases "crash_id_of H sg (stderr r1) \<in> unique_crashes s")
  case True
  with s1 s2 e show ?thesis by (auto simp: save_crash_def Let_def)
next
  case False
  obtain content err where w: "write_input_file pk (the_input r1) = (content, err)"
    by (cases "write_input_file pk (the_input r1)")
  show ?thesis
  proof (cases err)
    case None
    with s1 s2 e False w show ?thesis
      by (auto simp: save_crash_def Let_def mkdir_def write_file_def chmod_def)
  next
    case (Some x)
    with s1 s2 e False w show ?thesis
      by (auto simp: save_crash_def Let_def mkdir_def write_file_def chmod_def)
  qed
qed

lemma str_int_11: "str_int 11 = ''11''"
  by (simp add: str_int_def digits.simps)

text \<open>Witness for C5: two crashes with signal 11 and the same stderr, on a fresh fuzzer.\<close>

theorem save_crash_dedup_witness:
  "signal crash_a = Some 11 \<and> signal crash_b = Some 11 \<and> stderr crash_b = stderr crash_a \<and>
   the_input crash_a \<noteq> the_input crash_b \<and>
   crash_id_of id_hash 11 (stderr crash_a) = ''11:boom'' \<and>
   (\<exists>e1 s1.
      save_crash id_hash f32_pack ''t1'' crash_a fuzzer0 = (e1, s1) \<and>
      save_crash id_hash f32_pack ''t2'' crash_b s1 = (None, s1) \<and>
      unique_crashes s1 = {''11:boom''} \<and>
      dirs (disk s1) = {''crashes/11:boom'', ''fuzz_corpus'', ''crashes''})"
proof -
  have a: "signal crash_a = Some 11" and b: "signal crash_b = Some 11"
    and e: "stderr crash_b = stderr crash_a"
    by (simp_all add: crash_a_def crash_b_def)
  have i: "crash_id_of id_hash 11 (stderr crash_a) = ''11:boom''"
    by (simp add: crash_id_of_def id_hash_def str_int_11 crash_a_def)
  have d: "the_input crash_a \<noteq> the_input crash_b"
    by (simp add: crash_a_def crash_b_def raw_input_def)
  have f: "unique_crashes fuzzer0 = {}" "crashes_dir fuzzer0 = ''crashes''"
    "dirs (disk fuzzer0) = {''fuzz_corpus'', ''crashes''}"
    by (simp_all add: fuzzer0_def)
  from save_crash_dedup [OF a b e, of id_hash f32_pack "''t1''" fuzzer0 "''t2''"]
  show ?thesis unfolding i f using a b e d by (auto simp: path_join_def)
qed

lemma str_int_100: "str_int 100 = ''100''"
  by (simp add: str_int_def digits.simps)

lemma save_interesting_input_eq:
  "save_interesting_input pk now result s =
     (snd (write_input_file pk (the_input result)),
      s\<lparr>disk := (disk s)\<lparr>files := (files (disk s))
           (path_join (corpus_dir s) (interesting_filename now result) \<mapsto>
              Binary (fst (write_input_file pk (the_input result))))\<rparr>\<rparr>)"
  by (simp add: save_interesting_input_def Let_def write_file_def split: prod.splits)

lemma properties_of_eq:
  "properties_of result =
     (if crashed result then [''crash''] else []) @
     (if timeout result then [''timeout''] else []) @
     (if coverage result \<noteq> None \<and> coverage result \<noteq> Some [] then [''cov''] else [])"
  by (cases "coverage result") (simp_all add: properties_of_def)

lemma write_input_file_bytes: "bytes x = Some b \<Longrightarrow> write_input_file pk x = (b, None)"
  by (simp add: write_input_file_def)

text \<open>
  C8, amended.  \<open>save_interesting_input\<close> writes the bytes that \<open>write_input_file\<close>
  produces for the input (the payload itself when the input has one) to the file
  \<open>id_<timestamp>_<properties>.bin\<close> in the corpus directory, where the timestamp is the
  current time in whole seconds and the properties are those of \<open>crash\<close>, \<open>timeout\<close>,
  \<open>cov\<close> that apply, in this order, joined by underscores.  It creates or replaces that
  one file and changes nothing else: every file with another name is as before.
\<close>

theorem save_interesting_input_amended:
  "save_interesting_input pk now result s =
     (snd (write_input_file pk (the_input result)),
      s\<lparr>disk := (disk s)\<lparr>files := (files (disk s))
           (path_join (corpus_dir s) (interesting_filename now result) \<mapsto>
              Binary (fst (write_input_file pk (the_input result))))\<rparr>\<rparr>) \<and>
   interesting_filename now result =
     ''id_'' @ str_int (int_of_float now) @ ''_'' @ join ''_'' (properties_of result) @ ''.bin'' \<and>
   properties_of result =
     (if crashed result then [''crash''] else []) @
     (if timeout result then [''timeout''] else []) @
     (if coverage result \<noteq> None \<and> coverage result \<noteq> Some [] then [''cov''] else []) \<and>
   (\<forall>p. p \<noteq> path_join (corpus_dir s) (interesting_filename now result) \<longrightarrow>
      files (disk (snd (save_interesting_input pk now result s))) p = files (disk s) p) \<and>
   (bytes (the_input result) = Some b \<longrightarrow>
      fst (save_interesting_input pk now result s) = None \<and>
      files (disk (snd (save_interesting_input pk now result s)))
        (path_join (corpus_dir s) (interesting_filename now result)) = Some (Binary b))"
proof (intro conjI allI impI)
  show "save_interesting_input pk now result s =
     (snd (write_input_file pk (the_input result)),
      s\<lparr>disk := (disk s)\<lparr>files := (files (disk s))
           (path_join (corpus_dir s) (interesting_filename now result) \<mapsto>
              Binary (fst (write_input_file pk (the_input result))))\<rparr>\<rparr>)"
    by (rule save_interesting_input_eq)
  show "interesting_filename now result =
     ''id_'' @ str_int (int_of_float now) @ ''_'' @ join ''_'' (properties_of result) @ ''.bin''"
    by (simp only: interesting_filename_def)
  show "properties_of result =
     (if crashed result then [''crash''] else []) @
     (if timeout result then [''timeout''] else []) @
     (if coverage result \<noteq> None \<and> coverage result \<noteq> Some [] then [''cov''] else [])"
    by (rule properties_of_eq)
next
  fix p
  assume "p \<noteq> path_join (corpus_dir s) (interesting_filename now result)"
  then show "files (disk (snd (save_interesting_input pk now result s))) p = files (disk s) p"
    by (simp add: save_interesting_input_eq)
next
  assume b: "bytes (the_input result) = Some b"
  show "fst (save_interesting_input pk now result s) = None"
    by (simp add: save_interesting_input_eq write_input_file_bytes [OF b])
  show "files (disk (snd (save_interesting_input pk now result s)))
        (path_join (corpus_dir s) (interesting_filename now result)) = Some (Binary b)"
    by (simp add: save_interesting_input_eq write_input_file_bytes [OF b])
qed


lemma int_of_float_slow: "int_of_float (201 / 2) = 100" "int_of_float (401 / 4) = 100"
  by (simp_all add: int_of_float_def)

lemma properties_slow: "properties_of slow_a = []" "properties_of slow_b = []"
  by (simp_all add: properties_of_def slow_a_def slow_b_def)

lemma filename_slow:
  "interesting_filename (201 / 2) slow_a = ''id_100_.bin''"
  "interesting_filename (401 / 4) slow_b = ''id_100_.bin''"
  by (simp_all only: interesting_filename_def int_of_float_slow properties_slow str_int_100
      join.simps append.simps append_Nil2)

lemma input_slow:
  "write_input_file f32_pack (the_input slow_a) = ([1], None)"
  "write_input_file f32_pack (the_input slow_b) = ([2], None)"
  by (simp_all add: write_input_file_def slow_a_def slow_b_def raw_input_def)



text \<open>
  C8, as stated, fails: two slow runs with no other property, saved within the same second
  (at 100.5 and at 100.25), get the same file name, and the second call replaces the
  contents that the first call wrote.
\<close>

theorem save_interesting_overwrite_counterexample:
  "files (disk (snd (save_interesting_input f32_pack (201 / 2) slow_a fuzzer0)))
     ''fuzz_corpus/id_100_.bin'' = Some (Binary [1]) \<and>
   files (disk (snd (save_interesting_input f32_pack (401 / 4) slow_b
                  (snd (save_interesting_input f32_pack (201 / 2) slow_a fuzzer0)))))
     ''fuzz_corpus/id_100_.bin'' = Some (Binary [2])"
proof -
  have c: "corpus_dir fuzzer0 = ''fuzz_corpus''" by (simp add: fuzzer0_def)
  have p: "path_join ''fuzz_corpus'' ''id_100_.bin'' = ''fuzz_corpus/id_100_.bin''"
    by (simp add: path_join_def)
  have 1: "snd (save_interesting_input f32_pack (201 / 2) slow_a fuzzer0) =
       fuzzer0\<lparr>disk := (disk fuzzer0)\<lparr>files := (files (disk fuzzer0))
           (''fuzz_corpus/id_100_.bin'' \<mapsto> Binary [1])\<rparr>\<rparr>"
    by (simp only: save_interesting_input_eq filename_slow input_slow c p snd_conv fst_conv)
  have 2: "snd (save_interesting_input f32_pack (401 / 4) slow_b
       (fuzzer0\<lparr>disk := (disk fuzzer0)\<lparr>files := (files (disk fuzzer0))
           (''fuzz_corpus/id_100_.bin'' \<mapsto> Binary [1])\<rparr>\<rparr>)) =
       fuzzer0\<lparr>disk := (disk fuzzer0)\<lparr>files := (files (disk fuzzer0))
           (''fuzz_corpus/id_100_.bin'' \<mapsto> Binary [2])\<rparr>\<rparr>"
    by (simp add: save_interesting_input_eq filename_slow input_slow c p)
  show ?thesis unfolding 1 2 by simp
qed


text \<open>Witness for C8 as amended.\<close>

theorem save_interesting_input_amended_witness:
  "bytes (the_input slow_b) = Some [2] \<and>
   ''fuzz_corpus/other.bin'' \<noteq> path_join (corpus_dir fuzzer0) (interesting_filename (401 / 4) slow_b) \<and>
   fst (save_interesting_input f32_pack (401 / 4) slow_b fuzzer0) = None \<and>
   files (disk (snd (save_interesting_input f32_pack (401 / 4) slow_b fuzzer0)))
     (path_join (corpus_dir fuzzer0) (interesting_filename (401 / 4) slow_b)) = Some (Binary [2]) \<and>
   files (disk (snd (save_interesting_input f32_pack (401 / 4) slow_b fuzzer0)))
     ''fuzz_corpus/other.bin'' = files (disk fuzzer0) ''fuzz_corpus/other.bin''"
proof -
  have b: "bytes (the_input slow_b) = Some [2]" by (simp add: slow_b_def raw_input_def)
  have c: "corpus_dir fuzzer0 = ''fuzz_corpus''" by (simp add: fuzzer0_def)
  have p: "path_join (corpus_dir fuzzer0) (interesting_filename (401 / 4) slow_b) =
             ''fuzz_corpus/id_100_.bin''"
    by (simp add: path_join_def filename_slow c)
  have n: "''fuzz_corpus/other.bin'' \<noteq>
             path_join (corpus_dir fuzzer0) (interesting_filename (401 / 4) slow_b)"
    unfolding p by simp
  note t = save_interesting_input_amended [of f32_pack "401 / 4" slow_b fuzzer0 "[2]"]
  from t have f: "\<forall>p. p \<noteq> path_join (corpus_dir fuzzer0) (interesting_filename (401 / 4) slow_b) \<longrightarrow>
      files (disk (snd (save_interesting_input f32_pack (401 / 4) slow_b fuzzer0))) p =
      files (disk fuzzer0) p"
    by (elim conjE)
  from t have w: "bytes (the_input slow_b) = Some [2] \<longrightarrow>
      fst (save_interesting_input f32_pack (401 / 4) slow_b fuzzer0) = None \<and>
      files (disk (snd (save_interesting_input f32_pack (401 / 4) slow_b fuzzer0)))
        (path_join (corpus_dir fuzzer0) (interesting_filename (401 / 4) slow_b)) = Some (Binary [2])"
    by (elim conjE)
  from f [rule_format, OF n] w [rule_format, OF b] b n show ?thesis
    by (intro conjI) (assumption | elim conjE)+
qed

section \<open>\<open>execute_target\<close>: proofs\<close>

lemma execute_target_completed:
  assumes "write_input_file pk input_data = (content, None)"
  shows "fst (execute_target pk dec cov pid (Completed rc out err) t0 t1 input_data s) =
           Inr (completed_result dec cov t0 t1 rc out err)"
  using assms by (simp add: execute_target_def Let_def)

lemma execute_target_timeout:
  assumes "write_input_file pk input_data = (content, None)"
  shows "fst (execute_target pk dec cov pid TimeoutExpired t0 t1 input_data s) =
           Inr (initial_result\<lparr>timeout := True, execution_time := t1 - t0\<rparr>)"
  using assms by (simp add: execute_target_def Let_def)

lemma completed_result_fields:
  "exit_code (completed_result dec cov t0 t1 rc out err) = rc"
  "timeout (completed_result dec cov t0 t1 rc out err) = False"
  "crashed (completed_result dec cov t0 t1 rc out err) = (rc < 0)"
  "signal (completed_result dec cov t0 t1 rc out err) = (if rc < 0 then Some (- rc) else None)"
  by (simp_all add: completed_result_def initial_result_def Let_def split: option.splits)

text \<open>
  C6.  When the input file can be written, \<open>execute_target\<close> returns a result for a
  process that ends and for one that runs into the hard timeout.  A negative return code
  gives \<open>crashed\<close> with the signal number the negated return code, and no timeout; a
  return code that is not negative (zero or not) gives neither \<open>crashed\<close> nor a timeout,
  and no signal; the hard timeout gives \<open>timeout\<close> and not \<open>crashed\<close>.  No result is
  both crashed and timed out.
\<close>

theorem execute_target_classification:
  assumes w: "write_input_file pk input_data = (content, None)"
  shows
    "(\<exists>r. fst (execute_target pk dec cov pid (Completed rc out err) t0 t1 input_data s) = Inr r \<and>
          exit_code r = rc \<and> \<not> timeout r \<and>
          (rc < 0 \<longrightarrow> crashed r \<and> signal r = Some (- rc)) \<and>
          (0 \<le> rc \<longrightarrow> \<not> crashed r \<and> signal r = None)) \<and>
     (\<exists>r. fst (execute_target pk dec cov pid TimeoutExpired t0 t1 input_data s) = Inr r \<and>
          timeout r \<and> \<not> crashed r) \<and>
     (\<forall>outcome r. fst (execute_target pk dec cov pid outcome t0 t1 input_data s) = Inr r \<longrightarrow>
          \<not> (crashed r \<and> timeout r))"
proof (intro conjI allI impI)
  show "\<exists>r. fst (execute_target pk dec cov pid (Completed rc out err) t0 t1 input_data s) = Inr r \<and>
          exit_code r = rc \<and> \<not> timeout r \<and>
          (rc < 0 \<longrightarrow> crashed r \<and> signal r = Some (- rc)) \<and>
          (0 \<le> rc \<longrightarrow> \<not> crashed r \<and> signal r = None)"
    by (simp add: execute_target_completed [OF w] completed_result_fields)
  show "\<exists>r. fst (execute_target pk dec cov pid TimeoutExpired t0 t1 input_data s) = Inr r \<and>
          timeout r \<and> \<not> crashed r"
    by (simp add: execute_target_timeout [OF w] initial_result_def)
next
  fix outcome r
  assume a: "fst (execute_target pk dec cov pid outcome t0 t1 input_data s) = Inr r"
  show "\<not> (crashed r \<and> timeout r)"
  proof (cases outcome)
    case (Completed rc out err)
    with a execute_target_completed [OF w, of dec cov pid rc out err t0 t1 s]
    show ?thesis by (auto simp: completed_result_fields)
  next
    case TimeoutExpired
    with a execute_target_timeout [OF w, of dec cov pid t0 t1 s]
    show ?thesis by (auto simp: initial_result_def)
  next
    case LaunchError
    with a w show ?thesis by (simp add: execute_target_def Let_def)
  qed
qed


text \<open>Witness for C6: exit by signal 11, exit with status 1, and the hard timeout.\<close>

theorem execute_target_classification_witness:
  "write_input_file f32_pack (raw_input [1]) = ([1], None) \<and>
   (\<exists>r. fst (execute_target f32_pack latin1 no_coverage 42 (Completed (- 11) [] []) 0 (1 / 10)
              (raw_input [1]) fuzzer0) = Inr r \<and>
        crashed r \<and> signal r = Some 11 \<and> \<not> timeout r) \<and>
   (\<exists>r. fst (execute_target f32_pack latin1 no_coverage 42 (Completed 1 [] []) 0 (1 / 10)
              (raw_input [1]) fuzzer0) = Inr r \<and>
        \<not> crashed r \<and> \<not> timeout r \<and> exit_code r = 1) \<and>
   (\<exists>r. fst (execute_target f32_pack latin1 no_coverage 42 TimeoutExpired 0 2
              (raw_input [1]) fuzzer0) = Inr r \<and>
        timeout r \<and> \<not> crashed r)"
proof -
  have w: "write_input_file f32_pack (raw_input [1]) = ([1], None)"
    by (simp add: write_input_file_def raw_input_def)
  note t = execute_target_classification [OF w, of latin1 no_coverage 42]
  from t [of "- 11" "[]" "[]" 0 "1 / 10" fuzzer0]
  have 1: "\<exists>r. fst (execute_target f32_pack latin1 no_coverage 42 (Completed (- 11) [] []) 0 (1 / 10)
              (raw_input [1]) fuzzer0) = Inr r \<and>
        crashed r \<and> signal r = Some 11 \<and> \<not> timeout r"
    by auto
  from t [of 1 "[]" "[]" 0 "1 / 10" fuzzer0]
  have 2: "\<exists>r. fst (execute_target f32_pack latin1 no_coverage 42 (Completed 1 [] []) 0 (1 / 10)
              (raw_input [1]) fuzzer0) = Inr r \<and>
        \<not> crashed r \<and> \<not> timeout r \<and> exit_code r = 1"
    by auto
  from t [of 1 "[]" "[]" 0 2 fuzzer0]
  have 3: "\<exists>r. fst (execute_target f32_pack latin1 no_coverage 42 TimeoutExpired 0 2
              (raw_input [1]) fuzzer0) = Inr r \<and>
        timeout r \<and> \<not> crashed r"
    by (elim conjE)
  from w 1 2 3 show ?thesis by (intro conjI)
qed

end
